theory Spec2Isabelle
  imports Complex_Main "HOL-Library.Word"
begin

section \<open>Conventions\<close>

text \<open>
  The repository holds several independent ledger implementations. Each one is embedded
  below under the names of its source file:
  \<^item> \<^verbatim>\<open>blockchain.py\<close> (class \<^verbatim>\<open>Blockchain5470\<close>): plain field names;
  \<^item> \<^verbatim>\<open>blockchain_5470_synced_ai_zk.py\<close> (class \<^verbatim>\<open>Blockchain\<close>): fields prefixed \<open>z_\<close>;
  \<^item> \<^verbatim>\<open>core/blockchain.py\<close> (class \<^verbatim>\<open>RealBlockchain\<close>): fields prefixed \<open>r_\<close>;
  \<^item> \<^verbatim>\<open>core/node.py\<close> (class \<^verbatim>\<open>CoreNode\<close>): fields prefixed \<open>n_\<close>.

  SHA-256, SHA3 and ECDSA are not computed in the logic: every function that hashes or
  verifies a signature takes the primitive as a parameter, so a theorem that quantifies
  over the parameter holds for the real primitive as well. In \<^verbatim>\<open>blockchain.py\<close> a digest
  is a 64-digit hexadecimal string that the code reads back with \<^verbatim>\<open>int(h, 16)\<close>; it is
  identified with the 256-bit word it denotes, \<^verbatim>\<open>"0" * 64\<close> being the word \<open>0\<close>.
  A Python float is embedded as the real number it denotes. Sums of balances in
  \<^verbatim>\<open>core/blockchain.py\<close> are exact sums of reals; the float arithmetic of the difficulty
  retarget of \<^verbatim>\<open>blockchain.py\<close>, which rounds, is a parameter like the hash functions.
  Printing and persistence to disk are left out. \<^verbatim>\<open>Blockchain5470\<close> takes its lock only
  around a single append or a single pass of removals, never from reading the tip to
  appending; the steps of the worker threads modelled below are whole phases of
  \<^verbatim>\<open>mine_block\<close>, so each of them is a run that the lock allows.
\<close>

type_synonym digest = "256 word"

datatype py_error = IndexError | ValueError

section \<open>blockchain.py: data model\<close>

record transaction =
  tx_id :: string
  inputs :: "(string \<times> real) list"
  outputs :: "(string \<times> real) list"
  amount :: real
  fee :: real
  tx_timestamp :: real
  signature :: string
  public_key :: string
  is_coinbase :: bool

record block_header =
  version :: int
  prev_hash :: digest
  merkle_root :: digest
  timestamp :: real
  n_bits :: int
  nonce :: int
  height :: int

record block =
  header :: block_header
  transactions :: "transaction list"
  work :: int

text \<open>
  The primitives of \<^verbatim>\<open>blockchain.py\<close> that are computed outside the logic:
  \<^item> \<open>sha256_tx_data\<close>: SHA-256 of the JSON of the six fields that \<^verbatim>\<open>Transaction.get_hash\<close>
    serialises (inputs, outputs, amount, fee, timestamp, public key);
  \<^item> \<open>sha256_header\<close>: SHA-256 of the JSON of the seven header fields;
  \<^item> \<open>sha256_pair\<close>: SHA-256 of the concatenation of two hexadecimal digests;
  \<^item> \<open>ecdsa_verify\<close>: whether the signature (second argument) of the digest (third) verifies
    under the public key (first); an exception inside the check counts as \<open>False\<close>, as the
    \<^verbatim>\<open>except\<close> branch of \<^verbatim>\<open>verify_signature\<close> has it;
  \<^item> \<open>float_sub\<close>, \<open>float_div\<close>, \<open>float_mul\<close>: Python's \<^verbatim>\<open>-\<close>, \<^verbatim>\<open>/\<close> and \<^verbatim>\<open>*\<close> on numbers of
    which one may be a float, with the rounding of the machine: the value of the
    result, given the values of the operands.
\<close>

record crypto =
  sha256_tx_data ::
    "(string \<times> real) list \<times> (string \<times> real) list \<times> real \<times> real \<times> real \<times> string \<Rightarrow> digest"
  sha256_header :: "block_header \<Rightarrow> digest"
  sha256_pair :: "digest \<Rightarrow> digest \<Rightarrow> digest"
  ecdsa_verify :: "string \<Rightarrow> string \<Rightarrow> digest \<Rightarrow> bool"
  float_sub :: "real \<Rightarrow> real \<Rightarrow> real"
  float_div :: "real \<Rightarrow> real \<Rightarrow> real"
  float_mul :: "real \<Rightarrow> real \<Rightarrow> real"

definition get_hash :: "crypto \<Rightarrow> transaction \<Rightarrow> digest" where
  "get_hash c tx =
     sha256_tx_data c (inputs tx, outputs tx, amount tx, fee tx, tx_timestamp tx, public_key tx)"

definition verify_signature :: "crypto \<Rightarrow> transaction \<Rightarrow> bool" where
  "verify_signature c tx = ecdsa_verify c (public_key tx) (signature tx) (get_hash c tx)"

definition header_get_hash :: "crypto \<Rightarrow> block_header \<Rightarrow> digest" where
  "header_get_hash c h = sha256_header c h"

section \<open>Merkle commitment\<close>

text \<open>
  The loop of \<^verbatim>\<open>calculate_merkle_root\<close> is the same text in \<^verbatim>\<open>blockchain.py\<close> and in
  \<^verbatim>\<open>core/blockchain.py\<close>; it is embedded once, over any type of hashes and any pairing
  function. One round first appends the last hash when the count is odd
  (\<open>duplicate_last\<close>), then hashes the entries two by two (\<open>pair_up\<close>). After the
  duplication the count is even, so the read of \<^verbatim>\<open>tx_hashes[i + 1]\<close> is always in range;
  the one-element case of \<open>pair_up\<close> is therefore never reached from the loop
  (lemma \<open>even_length_duplicate_last\<close>).
\<close>

definition duplicate_last :: "'h list \<Rightarrow> 'h list" where
  "duplicate_last hs = (if length hs mod 2 = 1 then hs @ [last hs] else hs)"

fun pair_up :: "('h \<Rightarrow> 'h \<Rightarrow> 'h) \<Rightarrow> 'h list \<Rightarrow> 'h list" where
  "pair_up H (a # b # rest) = H a b # pair_up H rest"
| "pair_up H _ = []"

lemma length_pair_up: "length (pair_up H hs) = length hs div 2"
  by (induction H hs rule: pair_up.induct) simp_all

lemma length_duplicate_last:
  "length (duplicate_last hs) = (if odd (length hs) then Suc (length hs) else length hs)"
  by (simp add: duplicate_last_def odd_iff_mod_2_eq_one)

lemma even_length_duplicate_last: "even (length (duplicate_last hs))"
  by (simp add: length_duplicate_last)

function merkle_loop :: "('h \<Rightarrow> 'h \<Rightarrow> 'h) \<Rightarrow> 'h list \<Rightarrow> 'h list" where
  "merkle_loop H hs =
     (if length hs > 1 then merkle_loop H (pair_up H (duplicate_last hs)) else hs)"
  by pat_completeness auto
termination
proof (relation "measure (\<lambda>(H, hs). length hs)")
  show "wf (measure (\<lambda>(H, hs). length hs))" by simp
next
  fix H :: "'h \<Rightarrow> 'h \<Rightarrow> 'h" and hs :: "'h list"
  assume "1 < length hs"
  then have "length (duplicate_last hs) div 2 < length hs"
    by (simp add: length_duplicate_last) presburger
  then show "((H, pair_up H (duplicate_last hs)), (H, hs)) \<in> measure (\<lambda>(H, hs). length hs)"
    by (simp add: length_pair_up)
qed

declare merkle_loop.simps [simp del]


definition calculate_merkle_root :: "crypto \<Rightarrow> block \<Rightarrow> digest" where
  "calculate_merkle_root c b =
     (if transactions b = [] then 0
      else hd (merkle_loop (sha256_pair c) (map (get_hash c) (transactions b))))"


section \<open>blockchain.py: block verification\<close>

text \<open>
  \<^verbatim>\<open>int(block_hash, 16) >= target\<close> with \<^verbatim>\<open>target = 2 ** (256 - n_bits)\<close>. For
  \<open>n_bits \<le> 256\<close> the target is the integer \<open>2 ^ (256 - n_bits)\<close>. For a larger \<open>n_bits\<close>
  Python computes a float: the positive number \<open>2 ^ -(n_bits - 256)\<close>, below 1, as long
  as it is representable (exponent down to \<open>-1074\<close>), and \<open>0.0\<close> beyond; a non-negative
  integer is below the former only when it is 0 and never below the latter.
\<close>

definition below_target :: "digest \<Rightarrow> int \<Rightarrow> bool" where
  "below_target h bits =
     (if bits \<le> 256 then uint h < 2 ^ nat (256 - bits)
      else if bits \<le> 1330 then uint h = 0
      else False)"

definition verify_block :: "crypto \<Rightarrow> block \<Rightarrow> bool" where
  "verify_block c b =
     (if merkle_root (header b) \<noteq> calculate_merkle_root c b then False
      else if list_ex (\<lambda>tx. \<not> is_coinbase tx \<and> \<not> verify_signature c tx) (transactions b)
        then False
      else if \<not> below_target (header_get_hash c (header b)) (n_bits (header b)) then False
      else True)"

section \<open>blockchain.py: the ledger Blockchain5470\<close>

text \<open>
  The fields of \<^verbatim>\<open>Blockchain5470\<close> that the operations below read or write. The peer list
  and the port are left out; the threads that share the ledger are modelled further
  down.
\<close>

record blockchain5470 =
  chain :: "block list"
  mempool :: "transaction list"
  difficulty_target :: int
  block_time_target :: int
  best_work :: int
  mining :: bool
  mining_address :: "string option"

definition genesis_tx :: transaction where
  "genesis_tx =
     \<lparr>tx_id = ''genesis_tx'', inputs = [], outputs = [(''genesis'', 0)], amount = 0, fee = 0,
      tx_timestamp = 1640995200, signature = ''genesis_signature'',
      public_key = ''genesis_public_key'', is_coinbase = True\<rparr>"

text \<open>
  \<^verbatim>\<open>_create_genesis_block\<close>: the header is built with a placeholder Merkle root that is
  overwritten with the computed one before the block is appended.
\<close>

definition genesis_block :: "crypto \<Rightarrow> block" where
  "genesis_block c =
     (let genesis_header =
            \<lparr>version = 1, prev_hash = 0, merkle_root = 0, timestamp = 1640995200,
             n_bits = 20, nonce = 0, height = 0\<rparr>;
          genesis = \<lparr>header = genesis_header, transactions = [genesis_tx], work = 1\<rparr>
      in genesis\<lparr>header := genesis_header\<lparr>merkle_root := calculate_merkle_root c genesis\<rparr>\<rparr>)"

definition init :: "crypto \<Rightarrow> blockchain5470" where
  "init c =
     \<lparr>chain = [genesis_block c], mempool = [], difficulty_target = 20,
      block_time_target = 600, best_work = 0, mining = False, mining_address = None\<rparr>"

definition add_transaction_to_mempool ::
    "crypto \<Rightarrow> blockchain5470 \<Rightarrow> transaction \<Rightarrow> bool \<times> blockchain5470" where
  "add_transaction_to_mempool c s tx =
     (if \<not> is_coinbase tx \<and> \<not> verify_signature c tx then (False, s)
      else (True, s\<lparr>mempool := mempool s @ [tx]\<rparr>))"

text \<open>
  \<^verbatim>\<open>_create_coinbase_transaction\<close>. The two readings of the clock are inputs: \<open>cb_id\<close> is the
  string \<^verbatim>\<open>f"coinbase_{time.time()}"\<close> and \<open>now\<close> the timestamp.
\<close>

definition create_coinbase_transaction :: "string \<Rightarrow> real \<Rightarrow> string \<Rightarrow> transaction" where
  "create_coinbase_transaction cb_id now mining_addr =
     (let block_reward = 50 in
      \<lparr>tx_id = cb_id, inputs = [], outputs = [(mining_addr, block_reward)],
       amount = block_reward, fee = 0, tx_timestamp = now,
       signature = ''coinbase_signature'', public_key = ''coinbase_public_key'',
       is_coinbase = True\<rparr>)"

text \<open>
  \<^verbatim>\<open>_adjust_difficulty\<close>. \<^verbatim>\<open>self.chain[-10:]\<close> is the list of the last ten blocks. The
  difference of the timestamps, the division by 9 and the product with \<^verbatim>\<open>0.5\<close> are float
  operations; \<^verbatim>\<open>self.block_time_target * 2\<close> is a product of integers, and Python compares
  a float with an integer or a float exactly.
\<close>

definition adjust_difficulty :: "crypto \<Rightarrow> blockchain5470 \<Rightarrow> blockchain5470" where
  "adjust_difficulty c s =
     (if length (chain s) < 10 then s
      else
        let recent_blocks = drop (length (chain s) - 10) (chain s);
            time_diff = float_sub c (timestamp (header (last recent_blocks)))
                          (timestamp (header (hd recent_blocks)));
            avg_block_time = float_div c time_diff 9
        in if avg_block_time < float_mul c (real_of_int (block_time_target s)) 0.5
             then s\<lparr>difficulty_target := difficulty_target s + 1\<rparr>
           else if avg_block_time > real_of_int (block_time_target s * 2)
             then s\<lparr>difficulty_target := max 1 (difficulty_target s - 1)\<rparr>
           else s)"

text \<open>\<^verbatim>\<open>_add_block_to_chain\<close>: the returned flag and the ledger after the call.\<close>

definition add_block_to_chain ::
    "crypto \<Rightarrow> blockchain5470 \<Rightarrow> block \<Rightarrow> bool \<times> blockchain5470" where
  "add_block_to_chain c s b =
     (if \<not> verify_block c b then (False, s)
      else (True, adjust_difficulty c (s\<lparr>chain := chain s @ [b], best_work := work b\<rparr>)))"

text \<open>
  The proof-of-work loop of \<^verbatim>\<open>mine_block\<close>. It may run forever, so it is a partial
  function: \<open>None\<close> is a search that never ends, \<open>Some None\<close> the cancelled search (the
  Python \<^verbatim>\<open>return None\<close>), \<open>Some (Some h)\<close> the header that met the target. \<^verbatim>\<open>self.mining\<close>
  is written by \<^verbatim>\<open>stop_mining\<close> from another thread while the loop runs, so the value the
  loop reads after each failed attempt is an input: \<open>still_mining n\<close> is the flag read after
  the attempt with nonce \<open>n\<close> has failed.
\<close>

partial_function (option) mine_loop ::
    "crypto \<Rightarrow> (int \<Rightarrow> bool) \<Rightarrow> int \<Rightarrow> block_header \<Rightarrow> block_header option option" where
  "mine_loop c still_mining bits h =
     (if below_target (header_get_hash c (h\<lparr>nonce := nonce h + 1\<rparr>)) bits
        then Some (Some (h\<lparr>nonce := nonce h + 1\<rparr>))
      else if \<not> still_mining (nonce h + 1) then Some None
      else mine_loop c still_mining bits (h\<lparr>nonce := nonce h + 1\<rparr>))"

declare mine_loop.simps [code]

text \<open>
  What \<^verbatim>\<open>mine_block\<close> reads from outside the ledger: the clock (for the coinbase
  transaction and for the header) and the mining flag at each check.
\<close>

record mine_env =
  coinbase_id :: string
  coinbase_time :: real
  header_time :: real
  still_mining :: "int \<Rightarrow> bool"

text \<open>
  \<^verbatim>\<open>self.mempool.remove(tx)\<close> under \<^verbatim>\<open>if tx in self.mempool\<close>, for each selected
  transaction in turn: the first equal entry is removed.
\<close>

definition remove_mined :: "transaction list \<Rightarrow> transaction list \<Rightarrow> transaction list" where
  "remove_mined selected pool = foldl (\<lambda>m tx. remove1 tx m) pool selected"

text \<open>
  \<^verbatim>\<open>mine_block\<close>. The result is \<open>None\<close> when the search never ends; otherwise
  \<open>Inl IndexError\<close> when the chain is empty (\<^verbatim>\<open>self.chain[-1]\<close> raises), or the returned
  value (\<open>None\<close> for a cancelled search, the block otherwise) with the ledger after the
  call. The proof-of-work target is \<^verbatim>\<open>self.difficulty_target\<close>, the same value that the
  header carries in \<open>n_bits\<close>. The flag that \<^verbatim>\<open>_add_block_to_chain\<close> returns is dropped,
  as in the source. The accumulated work adds \<^verbatim>\<open>2 ** self.difficulty_target\<close>, an integer
  when the difficulty is not negative; the constructor sets it to 20 and
  \<^verbatim>\<open>_adjust_difficulty\<close> never takes it below 1.
\<close>

definition mine_block ::
    "crypto \<Rightarrow> mine_env \<Rightarrow> blockchain5470 \<Rightarrow> string
       \<Rightarrow> (py_error + block option \<times> blockchain5470) option" where
  "mine_block c e s mining_addr =
     (if chain s = [] then Some (Inl IndexError)
      else
        let selected = take 10 (mempool s);
            coinbase_tx = create_coinbase_transaction (coinbase_id e) (coinbase_time e) mining_addr;
            txs = coinbase_tx # selected;
            latest_block = last (chain s);
            hdr0 = \<lparr>version = 1, prev_hash = header_get_hash c (header latest_block),
                    merkle_root = 0, timestamp = header_time e,
                    n_bits = difficulty_target s, nonce = 0,
                    height = height (header latest_block) + 1\<rparr>;
            new_block = \<lparr>header = hdr0, transactions = txs, work = 0\<rparr>;
            hdr = hdr0\<lparr>merkle_root := calculate_merkle_root c new_block\<rparr>
        in case mine_loop c (still_mining e) (difficulty_target s) hdr of
             None \<Rightarrow> None
           | Some None \<Rightarrow> Some (Inr (None, s))
           | Some (Some mined) \<Rightarrow>
               let blk = \<lparr>header = mined, transactions = txs,
                          work = work latest_block + 2 ^ nat (difficulty_target s)\<rparr>;
                   s1 = snd (add_block_to_chain c s blk);
                   s2 = s1\<lparr>mempool := remove_mined selected (mempool s1)\<rparr>
               in Some (Inr (Some blk, s2)))"

text \<open>
  \<^verbatim>\<open>start_mining\<close> starts a new thread at every call, and each thread calls
  \<^verbatim>\<open>mine_block\<close> in a loop on the one shared ledger. \<^verbatim>\<open>mine_block\<close> holds no lock from
  the moment it reads the tip to the moment it appends, so another thread can append in
  between. The two phases are therefore modelled apart. \<open>mine_search\<close> is the part up to
  the end of the search: it reads the mempool, the tip and the difficulty, and looks for a
  nonce. What it hands to the second phase is the \<open>candidate\<close>: the header found, the
  selected transactions and the block that was the tip when the search started
  (\<^verbatim>\<open>latest_block\<close>).
\<close>

record candidate =
  cand_header :: block_header
  cand_transactions :: "transaction list"
  cand_latest_block :: block

definition mine_search ::
    "crypto \<Rightarrow> mine_env \<Rightarrow> blockchain5470 \<Rightarrow> string \<Rightarrow> (py_error + candidate option) option" where
  "mine_search c e s mining_addr =
     (if chain s = [] then Some (Inl IndexError)
      else
        let selected = take 10 (mempool s);
            coinbase_tx = create_coinbase_transaction (coinbase_id e) (coinbase_time e) mining_addr;
            txs = coinbase_tx # selected;
            latest_block = last (chain s);
            hdr0 = \<lparr>version = 1, prev_hash = header_get_hash c (header latest_block),
                    merkle_root = 0, timestamp = header_time e,
                    n_bits = difficulty_target s, nonce = 0,
                    height = height (header latest_block) + 1\<rparr>;
            new_block = \<lparr>header = hdr0, transactions = txs, work = 0\<rparr>;
            hdr = hdr0\<lparr>merkle_root := calculate_merkle_root c new_block\<rparr>
        in case mine_loop c (still_mining e) (difficulty_target s) hdr of
             None \<Rightarrow> None
           | Some None \<Rightarrow> Some (Inr None)
           | Some (Some mined) \<Rightarrow>
               Some (Inr (Some \<lparr>cand_header = mined, cand_transactions = txs,
                                 cand_latest_block = latest_block\<rparr>)))"

text \<open>
  \<open>mine_commit\<close> is the rest of \<^verbatim>\<open>mine_block\<close>, run on the ledger as it is by then:
  the work of the block is the work of the block read as the tip plus
  \<^verbatim>\<open>2 ** self.difficulty_target\<close>, the block goes through \<^verbatim>\<open>_add_block_to_chain\<close>, and the
  selected transactions are removed from the mempool. \<open>mine_block\<close> is the two phases run
  on the same ledger (lemma \<open>mine_block_phases\<close>).
\<close>

definition mine_commit :: "crypto \<Rightarrow> blockchain5470 \<Rightarrow> candidate \<Rightarrow> block \<times> blockchain5470" where
  "mine_commit c s cand =
     (let blk = \<lparr>header = cand_header cand, transactions = cand_transactions cand,
                 work = work (cand_latest_block cand) + 2 ^ nat (difficulty_target s)\<rparr>;
          s1 = snd (add_block_to_chain c s blk);
          s2 = s1\<lparr>mempool := remove_mined (tl (cand_transactions cand)) (mempool s1)\<rparr>
      in (blk, s2))"

text \<open>
  The threads of \<^verbatim>\<open>start_mining\<close>. A worker is at the head of its loop
  (\<^verbatim>\<open>while self.mining\<close>), or has found a header and not yet appended, or has left the
  loop. \<^verbatim>\<open>start_mining\<close> sets the flag and the address and adds a worker; it does not look
  for a worker that is already running. A step of the system is a step of one worker,
  chosen by the scheduler: \<open>worker_search\<close> runs worker \<open>i\<close> from the head of its loop to
  the end of its search (\<open>None\<close> when the search never ends; the worker leaves the loop
  when the flag is unset or \<^verbatim>\<open>mine_block\<close> raises), and \<open>worker_commit\<close> lets it append
  and return to the head of the loop.
\<close>

datatype worker = Loop_head string | Found string candidate | Exited

record miner_system =
  ledger :: blockchain5470
  workers :: "worker list"

definition init_system :: "crypto \<Rightarrow> miner_system" where
  "init_system c = \<lparr>ledger = init c, workers = []\<rparr>"

definition start_mining :: "miner_system \<Rightarrow> string \<Rightarrow> miner_system" where
  "start_mining sys address =
     sys\<lparr>ledger := (ledger sys)\<lparr>mining := True, mining_address := Some address\<rparr>,
         workers := workers sys @ [Loop_head address]\<rparr>"

definition stop_mining :: "miner_system \<Rightarrow> miner_system" where
  "stop_mining sys = sys\<lparr>ledger := (ledger sys)\<lparr>mining := False\<rparr>\<rparr>"

definition worker_search ::
    "crypto \<Rightarrow> mine_env \<Rightarrow> miner_system \<Rightarrow> nat \<Rightarrow> miner_system option" where
  "worker_search c e sys i =
     (if i < length (workers sys)
      then (case workers sys ! i of
              Loop_head address \<Rightarrow>
                (if \<not> mining (ledger sys) then Some (sys\<lparr>workers := (workers sys)[i := Exited]\<rparr>)
                 else case mine_search c e (ledger sys) address of
                        None \<Rightarrow> None
                      | Some (Inl err) \<Rightarrow> Some (sys\<lparr>workers := (workers sys)[i := Exited]\<rparr>)
                      | Some (Inr None) \<Rightarrow> Some sys
                      | Some (Inr (Some cand)) \<Rightarrow>
                          Some (sys\<lparr>workers := (workers sys)[i := Found address cand]\<rparr>))
            | Found address cand \<Rightarrow> Some sys
            | Exited \<Rightarrow> Some sys)
      else Some sys)"

definition worker_commit :: "crypto \<Rightarrow> miner_system \<Rightarrow> nat \<Rightarrow> miner_system" where
  "worker_commit c sys i =
     (if i < length (workers sys)
      then (case workers sys ! i of
              Found address cand \<Rightarrow>
                sys\<lparr>ledger := snd (mine_commit c (ledger sys) cand),
                    workers := (workers sys)[i := Loop_head address]\<rparr>
            | Loop_head address \<Rightarrow> sys
            | Exited \<Rightarrow> sys)
      else sys)"

text \<open>
  Every transaction of the pool is tagged as coinbase or carries a signature that
  verifies: what \<^verbatim>\<open>add_transaction_to_mempool\<close> admits.
\<close>

definition signed_pool :: "crypto \<Rightarrow> transaction list \<Rightarrow> bool" where
  "signed_pool c pool = list_all (\<lambda>tx. is_coinbase tx \<or> verify_signature c tx) pool"

text \<open>
  A stand-in for the primitives, used only to run the model on concrete inputs: the
  header hash is 5 at nonce 3 and \<open>2 ^ 255\<close> elsewhere, a signature verifies when it
  is the string \<open>ok\<close>, and the float operations are exact.
\<close>

definition toy_crypto :: crypto where
  "toy_crypto =
     \<lparr>sha256_tx_data = (\<lambda>(ins, outs, a, f, t, pk). of_nat (length pk)),
      sha256_header =
        (\<lambda>h. if nonce h = 3 then 5
             else 57896044618658097711785492504343953926634992332820282019728792003956564819968),
      sha256_pair = (\<lambda>x y. 3 * x + y + 1),
      ecdsa_verify = (\<lambda>pk sg h. sg = ''ok''),
      float_sub = (\<lambda>x y. x - y), float_div = (\<lambda>x y. x / y), float_mul = (\<lambda>x y. x * y)\<rparr>"

definition toy_tx :: "string \<Rightarrow> real \<Rightarrow> string \<Rightarrow> transaction" where
  "toy_tx pk a sg =
     \<lparr>tx_id = pk, inputs = [(pk, a)], outputs = [(''bob'', a)], amount = a, fee = 0.01,
      tx_timestamp = 1640995300, signature = sg, public_key = pk, is_coinbase = False\<rparr>"

definition toy_env :: mine_env where
  "toy_env =
     \<lparr>coinbase_id = ''coinbase_1640995800.0'', coinbase_time = 1640995800,
      header_time = 1640995800, still_mining = (\<lambda>n. True)\<rparr>"

section \<open>core/blockchain.py: data model and Merkle commitment\<close>

text \<open>
  Here hashes are Python strings: \<^verbatim>\<open>tx_hash\<close> is a field that the caller may leave empty,
  and the pairing step is SHA-256 of the concatenation of two strings, so the hashing
  primitives take and return strings:
  \<^item> \<open>r_sha256\<close>: \<^verbatim>\<open>hashlib.sha256(s.encode()).hexdigest()\<close>;
  \<^item> \<open>r_tx_data\<close>, \<open>r_block_data\<close>: the f-strings that \<^verbatim>\<open>Transaction.calculate_hash\<close> and
    \<^verbatim>\<open>Block.calculate_hash\<close> format from the fields (the printing of floats and integers).
\<close>

record r_transaction =
  r_from_address :: string
  r_to_address :: string
  r_amount :: real
  r_timestamp :: real
  r_signature :: string
  r_tx_hash :: string

record r_block =
  r_index :: int
  r_block_timestamp :: real
  r_transactions :: "r_transaction list"
  r_previous_hash :: string
  r_nonce :: int
  r_hash :: string
  r_merkle_root :: string
  r_difficulty :: int

record r_crypto =
  r_sha256 :: "string \<Rightarrow> string"
  r_tx_data :: "string \<times> string \<times> real \<times> real \<Rightarrow> string"
  r_block_data :: "int \<times> real \<times> string \<times> string \<times> int \<times> int \<Rightarrow> string"

definition r_calculate_merkle_root :: "r_crypto \<Rightarrow> r_block \<Rightarrow> string" where
  "r_calculate_merkle_root c b =
     (if r_transactions b = [] then replicate 64 CHR ''0''
      else hd (merkle_loop (\<lambda>x y. r_sha256 c (x @ y)) (map r_tx_hash (r_transactions b))))"

text \<open>\<^verbatim>\<open>s.startswith(t)\<close> on Python strings.\<close>

definition startswith :: "string \<Rightarrow> string \<Rightarrow> bool" where
  "startswith s t = (take (length t) s = t)"

section \<open>core/blockchain.py: the ledger RealBlockchain\<close>

record real_blockchain =
  r_chain :: "r_block list"
  r_pending_transactions :: "r_transaction list"
  r_mining_reward :: real
  r_ledger_difficulty :: int
  r_balances :: "string \<rightharpoonup> real"

definition r_calculate_hash :: "r_crypto \<Rightarrow> r_transaction \<Rightarrow> string" where
  "r_calculate_hash c tx =
     r_sha256 c (r_tx_data c (r_from_address tx, r_to_address tx, r_amount tx, r_timestamp tx))"

definition r_block_calculate_hash :: "r_crypto \<Rightarrow> r_block \<Rightarrow> string" where
  "r_block_calculate_hash c b =
     r_sha256 c (r_block_data c (r_index b, r_block_timestamp b, r_previous_hash b,
                                 r_merkle_root b, r_nonce b, r_difficulty b))"

text \<open>
  The loop of \<^verbatim>\<open>Block.mine_block\<close>: \<open>None\<close> is a search that never ends. The target is
  \<^verbatim>\<open>"0" * self.difficulty\<close>, the empty string for a difficulty below 1.
\<close>

partial_function (option) r_mine_loop :: "r_crypto \<Rightarrow> r_block \<Rightarrow> r_block option" where
  "r_mine_loop c b =
     (if startswith (r_block_calculate_hash c b) (replicate (nat (r_difficulty b)) CHR ''0'')
        then Some (b\<lparr>r_hash := r_block_calculate_hash c b\<rparr>)
      else r_mine_loop c (b\<lparr>r_hash := r_block_calculate_hash c b, r_nonce := r_nonce b + 1\<rparr>))"

declare r_mine_loop.simps [code]

definition r_mine_block :: "r_crypto \<Rightarrow> r_block \<Rightarrow> r_block option" where
  "r_mine_block c b = r_mine_loop c (b\<lparr>r_merkle_root := r_calculate_merkle_root c b\<rparr>)"

definition r_get_balance :: "real_blockchain \<Rightarrow> string \<Rightarrow> real" where
  "r_get_balance s a = (case r_balances s a of None \<Rightarrow> 0 | Some v \<Rightarrow> v)"

definition r_verify_transaction :: "r_crypto \<Rightarrow> r_transaction \<Rightarrow> bool" where
  "r_verify_transaction c tx = (r_tx_hash tx = r_calculate_hash c tx)"

definition r_add_transaction ::
    "r_crypto \<Rightarrow> real_blockchain \<Rightarrow> r_transaction \<Rightarrow> bool \<times> real_blockchain" where
  "r_add_transaction c s tx =
     (if r_from_address tx \<noteq> ''0'' \<and> \<not> r_verify_transaction c tx then (False, s)
      else if r_from_address tx \<noteq> ''0'' \<and> r_get_balance s (r_from_address tx) < r_amount tx
        then (False, s)
      else (True, s\<lparr>r_pending_transactions :=
                       r_pending_transactions s @ [tx\<lparr>r_tx_hash := r_calculate_hash c tx\<rparr>]\<rparr>))"

text \<open>
  \<^verbatim>\<open>update_balances_from_block\<close>, one transaction at a time: the sender is debited unless
  it is the reward address \<^verbatim>\<open>"0"\<close>, then the recipient is credited; an address that is not
  yet a key of the dictionary starts at 0.
\<close>

definition r_update_balance :: "(string \<rightharpoonup> real) \<Rightarrow> r_transaction \<Rightarrow> (string \<rightharpoonup> real)" where
  "r_update_balance bal tx =
     (let bal1 =
            (if r_from_address tx \<noteq> ''0''
             then bal(r_from_address tx \<mapsto>
                        (case bal (r_from_address tx) of None \<Rightarrow> 0 | Some v \<Rightarrow> v) - r_amount tx)
             else bal)
      in bal1(r_to_address tx \<mapsto>
                (case bal1 (r_to_address tx) of None \<Rightarrow> 0 | Some v \<Rightarrow> v) + r_amount tx))"

definition r_update_balances_from_block :: "real_blockchain \<Rightarrow> r_block \<Rightarrow> real_blockchain" where
  "r_update_balances_from_block s b =
     s\<lparr>r_balances := foldl r_update_balance (r_balances s) (r_transactions b)\<rparr>"

text \<open>
  \<^verbatim>\<open>mine_pending_transactions\<close>; \<open>t_reward\<close> and \<open>t_block\<close> are the two readings of the
  clock. \<open>None\<close> when the search never ends, \<open>Inl IndexError\<close> on an empty chain.
\<close>

definition r_mine_pending_transactions ::
    "r_crypto \<Rightarrow> real \<Rightarrow> real \<Rightarrow> real_blockchain \<Rightarrow> string
       \<Rightarrow> (py_error + r_block \<times> real_blockchain) option" where
  "r_mine_pending_transactions c t_reward t_block s mining_reward_address =
     (let reward0 = \<lparr>r_from_address = ''0'', r_to_address = mining_reward_address,
                     r_amount = r_mining_reward s, r_timestamp = t_reward,
                     r_signature = [], r_tx_hash = []\<rparr>;
          reward_tx = reward0\<lparr>r_tx_hash := r_calculate_hash c reward0\<rparr>;
          txs = reward_tx # r_pending_transactions s
      in if r_chain s = [] then Some (Inl IndexError)
         else
           case r_mine_block c
                  \<lparr>r_index = int (length (r_chain s)), r_block_timestamp = t_block,
                   r_transactions = txs, r_previous_hash = r_hash (last (r_chain s)),
                   r_nonce = 0, r_hash = [], r_merkle_root = [],
                   r_difficulty = r_ledger_difficulty s\<rparr> of
             None \<Rightarrow> None
           | Some new_block \<Rightarrow>
               Some (Inr (new_block,
                 (r_update_balances_from_block (s\<lparr>r_chain := r_chain s @ [new_block]\<rparr>) new_block)
                   \<lparr>r_pending_transactions := []\<rparr>)))"

text \<open>
  The constructor on an empty data directory: the genesis block has no transactions and
  is mined like any other block.
\<close>

definition r_init :: "r_crypto \<Rightarrow> real \<Rightarrow> real_blockchain option" where
  "r_init c now =
     (case r_mine_block c
             \<lparr>r_index = 0, r_block_timestamp = now, r_transactions = [],
              r_previous_hash = ''0'', r_nonce = 0, r_hash = [], r_merkle_root = [],
              r_difficulty = 4\<rparr> of
        None \<Rightarrow> None
      | Some genesis \<Rightarrow>
          Some \<lparr>r_chain = [genesis], r_pending_transactions = [], r_mining_reward = 10,
                r_ledger_difficulty = 4, r_balances = Map.empty\<rparr>)"

section \<open>blockchain_5470_synced_ai_zk.py: the ledger Blockchain\<close>

text \<open>
  Amounts are integers of the base unit. A transaction is either an ordinary
  \<^verbatim>\<open>Transaction\<close> or a \<^verbatim>\<open>ShieldedTransaction\<close>, whose sender, recipient and amount are fixed.
  The module reads its constants from \<^verbatim>\<open>config.json\<close> with defaults; they are the fields
  of \<open>z_config\<close>, together with the two computations that are not done in the logic:
  \<^item> \<open>commission\<close>: \<^verbatim>\<open>int(amount * COMMISSION_RATE)\<close>, a float product truncated;
  \<^item> \<open>sha3_block\<close>: SHA3-256 of the JSON of index, transactions, timestamp, previous hash
    and nonce.
\<close>

record z_transaction =
  z_from_address :: string
  z_to_address :: string
  z_amount :: int
  z_nonce :: int
  z_timestamp :: int
  z_data :: string
  z_chain_id :: int
  z_signature :: "string option"

record z_shielded =
  zs_nonce :: int
  zs_timestamp :: int
  zs_data :: string
  zs_chain_id :: int
  zs_proof :: string

datatype z_tx = Plain z_transaction | Shielded z_shielded

record z_block =
  z_index :: int
  z_transactions :: "z_tx list"
  z_previous_hash :: string
  z_block_timestamp :: int
  z_block_nonce :: int
  z_hash :: string

record z_config =
  block_reward_initial :: int
  pow_difficulty :: int
  config_chain_id :: int
  commission :: "int \<Rightarrow> int"
  sha3_block :: "int \<times> z_tx list \<times> int \<times> string \<times> int \<Rightarrow> string"

record z_blockchain =
  z_chain :: "z_block list"
  z_balances :: "string \<rightharpoonup> int"
  z_nonces :: "string \<rightharpoonup> int"
  z_pending_transactions :: "z_tx list"
  z_miner_address :: string

text \<open>The defaults: \<^verbatim>\<open>BASE_UNIT = 10 ** 8\<close> and \<^verbatim>\<open>BLOCK_REWARD_INITIAL = int(50 * BASE_UNIT)\<close>.\<close>

definition BASE_UNIT :: int where
  "BASE_UNIT = 10 ^ 8"

definition BLOCK_REWARD_INITIAL :: int where
  "BLOCK_REWARD_INITIAL = 50 * BASE_UNIT"


definition z_calculate_hash :: "z_config \<Rightarrow> z_block \<Rightarrow> string" where
  "z_calculate_hash p b =
     sha3_block p (z_index b, z_transactions b, z_block_timestamp b, z_previous_hash b,
                   z_block_nonce b)"

definition z_get :: "(string \<rightharpoonup> int) \<Rightarrow> string \<Rightarrow> int" where
  "z_get m k = (case m k of None \<Rightarrow> 0 | Some v \<Rightarrow> v)"

text \<open>The body of the loop over the transactions of an accepted block in \<^verbatim>\<open>add_block\<close>.\<close>

fun z_apply_tx :: "z_config \<Rightarrow> z_blockchain \<Rightarrow> z_tx \<Rightarrow> z_blockchain" where
  "z_apply_tx p s (Shielded stx) =
     s\<lparr>z_nonces := (z_nonces s)(''shielded'' \<mapsto> z_get (z_nonces s) ''shielded'' + 1)\<rparr>"
| "z_apply_tx p s (Plain tx) =
     (if z_from_address tx = ''system'' \<or> z_from_address tx = ''genesis''
      then s\<lparr>z_balances :=
               (z_balances s)(z_to_address tx \<mapsto> z_get (z_balances s) (z_to_address tx) + z_amount tx)\<rparr>
      else
        let fee = commission p (z_amount tx);
            b1 = (z_balances s)(z_from_address tx \<mapsto>
                    z_get (z_balances s) (z_from_address tx) - z_amount tx - fee);
            b2 = b1(z_to_address tx \<mapsto> z_get b1 (z_to_address tx) + z_amount tx);
            b3 = b2(z_miner_address s \<mapsto> z_get b2 (z_miner_address s) + fee)
        in s\<lparr>z_balances := b3,
             z_nonces := (z_nonces s)(z_from_address tx \<mapsto>
                            z_get (z_nonces s) (z_from_address tx) + 1)\<rparr>)"

text \<open>
  \<^verbatim>\<open>add_block\<close>: \<open>Inl IndexError\<close> when the chain is empty (\<^verbatim>\<open>self.chain[-1]\<close> raises),
  otherwise the returned flag and the ledger after the call.
\<close>

definition z_add_block :: "z_config \<Rightarrow> z_blockchain \<Rightarrow> z_block \<Rightarrow> py_error + bool \<times> z_blockchain" where
  "z_add_block p s b =
     (if z_chain s = [] then Inl IndexError
      else if z_previous_hash b \<noteq> z_hash (last (z_chain s)) then Inr (False, s)
      else if z_hash b \<noteq> z_calculate_hash p b then Inr (False, s)
      else if \<not> startswith (z_hash b) (replicate (nat (pow_difficulty p)) CHR ''0'')
        then Inr (False, s)
      else Inr (True, foldl (z_apply_tx p) (s\<lparr>z_chain := z_chain s @ [b]\<rparr>) (z_transactions b)))"

text \<open>
  \<^verbatim>\<open>create_genesis_block\<close>, the constructor's path when no chain file exists; \<open>now\<close> is
  the clock, read once for the transaction and once for the block.
\<close>

definition z_create_genesis_block :: "z_config \<Rightarrow> string \<Rightarrow> int \<Rightarrow> int \<Rightarrow> z_blockchain" where
  "z_create_genesis_block p miner t_tx t_block =
     (let gtx = Plain \<lparr>z_from_address = ''genesis'', z_to_address = miner, z_amount = 0,
                       z_nonce = 0, z_timestamp = t_tx, z_data = [],
                       z_chain_id = config_chain_id p, z_signature = None\<rparr>;
          g0 = \<lparr>z_index = 0, z_transactions = [gtx], z_previous_hash = replicate 64 CHR ''0'',
                z_block_timestamp = t_block, z_block_nonce = 0, z_hash = []\<rparr>;
          genesis = g0\<lparr>z_hash := z_calculate_hash p g0\<rparr>
      in \<lparr>z_chain = [genesis], z_balances = [miner \<mapsto> 0], z_nonces = [miner \<mapsto> 0],
          z_pending_transactions = [], z_miner_address = miner\<rparr>)"

section \<open>core/node.py: the node CoreNode\<close>

text \<open>
  \<open>n_sha256_tx\<close> and \<open>n_sha256_block\<close> are SHA-256 of the f-strings that
  \<^verbatim>\<open>Transaction.calculate_hash\<close> and \<^verbatim>\<open>Block.calculate_hash\<close> format. A record stands for
  the object after \<^verbatim>\<open>__post_init__\<close>, which fills an empty hash field with the computed
  hash; a block or transaction built from a peer's message keeps the hash the peer sent.
\<close>

record n_transaction =
  n_from_address :: string
  n_to_address :: string
  n_amount :: int
  n_timestamp :: real
  n_nonce :: int
  n_signature :: string
  n_tx_hash :: string

record n_block =
  n_index :: int
  n_transactions :: "n_transaction list"
  n_previous_hash :: string
  n_block_timestamp :: real
  n_block_nonce :: int
  n_hash :: string

record n_crypto =
  n_sha256_tx :: "string \<times> string \<times> int \<times> real \<times> int \<Rightarrow> string"
  n_sha256_block :: "int \<times> string \<times> string \<times> real \<times> int \<Rightarrow> string"

record core_node =
  n_blockchain :: "n_block list"
  n_mempool :: "n_transaction list"
  n_utxo_set :: "string \<rightharpoonup> n_transaction list"
  n_wallet_address :: string
  n_is_mining :: bool

definition n_tx_calculate_hash :: "n_crypto \<Rightarrow> n_transaction \<Rightarrow> string" where
  "n_tx_calculate_hash c tx =
     n_sha256_tx c (n_from_address tx, n_to_address tx, n_amount tx, n_timestamp tx, n_nonce tx)"

definition n_new_transaction ::
    "n_crypto \<Rightarrow> string \<Rightarrow> string \<Rightarrow> int \<Rightarrow> real \<Rightarrow> int \<Rightarrow> n_transaction" where
  "n_new_transaction c src dst amt ts k =
     (let tx = \<lparr>n_from_address = src, n_to_address = dst, n_amount = amt, n_timestamp = ts,
                n_nonce = k, n_signature = [], n_tx_hash = []\<rparr>
      in tx\<lparr>n_tx_hash := n_tx_calculate_hash c tx\<rparr>)"

definition n_block_calculate_hash :: "n_crypto \<Rightarrow> n_block \<Rightarrow> string" where
  "n_block_calculate_hash c b =
     n_sha256_block c (n_index b, concat (map n_tx_hash (n_transactions b)), n_previous_hash b,
                       n_block_timestamp b, n_block_nonce b)"

definition n_new_block ::
    "n_crypto \<Rightarrow> int \<Rightarrow> n_transaction list \<Rightarrow> string \<Rightarrow> real \<Rightarrow> n_block" where
  "n_new_block c i txs prev ts =
     (let b = \<lparr>n_index = i, n_transactions = txs, n_previous_hash = prev,
               n_block_timestamp = ts, n_block_nonce = 0, n_hash = []\<rparr>
      in b\<lparr>n_hash := n_block_calculate_hash c b\<rparr>)"

text \<open>The constructor: the wallet address is random and the clock is read twice.\<close>

definition n_init :: "n_crypto \<Rightarrow> string \<Rightarrow> real \<Rightarrow> real \<Rightarrow> core_node" where
  "n_init c wallet t_tx t_block =
     \<lparr>n_blockchain =
        [n_new_block c 0 [n_new_transaction c ''genesis'' wallet (50 * 100000000) t_tx 0]
           (replicate 64 CHR ''0'') t_block],
      n_mempool = [], n_utxo_set = Map.empty, n_wallet_address = wallet, n_is_mining = False\<rparr>"

definition n_validate_transaction :: "n_transaction \<Rightarrow> bool" where
  "n_validate_transaction tx =
     (n_amount tx > 0 \<and> n_from_address tx \<noteq> n_to_address tx \<and> length (n_tx_hash tx) = 64)"

definition n_validate_block :: "core_node \<Rightarrow> n_block \<Rightarrow> bool" where
  "n_validate_block s b =
     (if n_blockchain s = [] then n_index b = 0
      else n_index b = n_index (last (n_blockchain s)) + 1
           \<and> n_previous_hash b = n_hash (last (n_blockchain s))
           \<and> startswith (n_hash b) ''0000'')"

text \<open>\<^verbatim>\<open>update_utxo_set\<close>: every transaction is appended to its recipient's list.\<close>

definition n_update_utxo_set :: "core_node \<Rightarrow> n_block \<Rightarrow> core_node" where
  "n_update_utxo_set s b =
     s\<lparr>n_utxo_set :=
         foldl (\<lambda>u tx. u(n_to_address tx \<mapsto>
                          (case u (n_to_address tx) of None \<Rightarrow> [] | Some l \<Rightarrow> l) @ [tx]))
           (n_utxo_set s) (n_transactions b)\<rparr>"

definition n_add_block :: "core_node \<Rightarrow> n_block \<Rightarrow> core_node" where
  "n_add_block s b =
     (if n_validate_block s b
      then n_update_utxo_set (s\<lparr>n_blockchain := n_blockchain s @ [b]\<rparr>) b
      else s)"

text \<open>
  The two branches of \<^verbatim>\<open>process_peer_message\<close> that change the node: a transaction
  message (\<^verbatim>\<open>MSG_TX\<close>) and a list of blocks (\<^verbatim>\<open>MSG_BLOCKS\<close>), each block going through
  \<^verbatim>\<open>validate_block\<close> and \<^verbatim>\<open>add_block\<close>.
\<close>

definition n_receive_tx :: "core_node \<Rightarrow> n_transaction \<Rightarrow> core_node" where
  "n_receive_tx s tx =
     (if n_validate_transaction tx then s\<lparr>n_mempool := n_mempool s @ [tx]\<rparr> else s)"

definition n_receive_blocks :: "core_node \<Rightarrow> n_block list \<Rightarrow> core_node" where
  "n_receive_blocks s bs =
     foldl (\<lambda>s b. if n_validate_block s b then n_add_block s b else s) s bs"

text \<open>
  The proof-of-work loop of \<^verbatim>\<open>CoreNode.mine_block\<close> and the method itself, which removes
  the transactions it selected from the mempool. \<open>None\<close> is a search that never ends.
\<close>

partial_function (option) n_mine_loop :: "n_crypto \<Rightarrow> n_block \<Rightarrow> n_block option" where
  "n_mine_loop c b =
     (if startswith (n_hash b) ''0000'' then Some b
      else n_mine_loop c
             (b\<lparr>n_block_nonce := n_block_nonce b + 1,
                n_hash := n_block_calculate_hash c (b\<lparr>n_block_nonce := n_block_nonce b + 1\<rparr>)\<rparr>))"

declare n_mine_loop.simps [code]

definition n_mine_block ::
    "n_crypto \<Rightarrow> real \<Rightarrow> real \<Rightarrow> core_node \<Rightarrow> (py_error + n_block option \<times> core_node) option" where
  "n_mine_block c t_tx t_block s =
     (if n_mempool s = [] then Some (Inr (None, s))
      else if n_blockchain s = [] then Some (Inl IndexError)
      else
        let selected_txs = take 10 (n_mempool s);
            coinbase_tx =
              n_new_transaction c ''coinbase'' (n_wallet_address s) (50 * 100000000) t_tx 0;
            new_block = n_new_block c (int (length (n_blockchain s))) (coinbase_tx # selected_txs)
                          (n_hash (last (n_blockchain s))) t_block
        in case n_mine_loop c new_block of
             None \<Rightarrow> None
           | Some mined \<Rightarrow>
               Some (Inr (Some mined,
                 s\<lparr>n_mempool := foldl (\<lambda>m tx. remove1 tx m) (n_mempool s) selected_txs\<rparr>)))"

section \<open>Properties of a chain, stated from the specification\<close>

text \<open>
  The linkage invariant of the specification for \<^verbatim>\<open>blockchain.py\<close>: every block but the
  first names the hash of the header before it and has the next height.
\<close>

fun linked :: "crypto \<Rightarrow> block list \<Rightarrow> bool" where
  "linked c (a # b # rest) =
     (prev_hash (header b) = header_get_hash c (header a)
      \<and> height (header b) = height (header a) + 1
      \<and> linked c (b # rest))"
| "linked c _ = True"

text \<open>
  The observed average of the specification's retarget rule, as the machine computes it:
  the time between the first and the last block of the window of the last ten blocks,
  over its nine intervals.
\<close>

definition observed_average :: "crypto \<Rightarrow> block list \<Rightarrow> real" where
  "observed_average c bs =
     float_div c
       (float_sub c (timestamp (header (bs ! (length bs - 1))))
          (timestamp (header (bs ! (length bs - 10)))))
       9"

text \<open>
  The same average in exact arithmetic, and the condition that the three float operations
  of the retarget round nothing on the values of a ledger.
\<close>

definition exact_average :: "block list \<Rightarrow> real" where
  "exact_average bs =
     (timestamp (header (bs ! (length bs - 1))) - timestamp (header (bs ! (length bs - 10)))) / 9"

definition floats_exact_on :: "crypto \<Rightarrow> blockchain5470 \<Rightarrow> bool" where
  "floats_exact_on c s =
     (float_sub c (timestamp (header (chain s ! (length (chain s) - 1))))
          (timestamp (header (chain s ! (length (chain s) - 10))))
        = timestamp (header (chain s ! (length (chain s) - 1)))
            - timestamp (header (chain s ! (length (chain s) - 10)))
      \<and> float_div c (timestamp (header (chain s ! (length (chain s) - 1)))
                        - timestamp (header (chain s ! (length (chain s) - 10)))) 9
        = (timestamp (header (chain s ! (length (chain s) - 1)))
             - timestamp (header (chain s ! (length (chain s) - 10)))) / 9
      \<and> float_mul c (real_of_int (block_time_target s)) 0.5
        = real_of_int (block_time_target s) / 2)"

section \<open>Concrete ledgers of blockchain.py\<close>



definition toy_block_at :: "real \<Rightarrow> block" where
  "toy_block_at t =
     \<lparr>header = \<lparr>version = 1, prev_hash = 0, merkle_root = 0, timestamp = t, n_bits = 20,
                 nonce = 0, height = 0\<rparr>,
      transactions = [], work = 0\<rparr>"

definition toy_ledger_at :: "real list \<Rightarrow> blockchain5470" where
  "toy_ledger_at ts = (init toy_crypto)\<lparr>chain := map toy_block_at ts\<rparr>"

text \<open>
  Two workers started on the constructor's ledger, and two schedules. The clock readings
  of the searches differ by a second. Under the stand-in primitives every search ends at
  nonce 3 with the candidate \<open>toy_candidate\<close> on the tip it read. In \<open>toy_race\<close> both
  workers search on the genesis tip and then both append. In \<open>toy_overtaken\<close> both
  workers search on the genesis tip, the first appends, searches again and appends again,
  and the second still holds the block it found on the genesis tip.
\<close>

definition toy_env_b :: mine_env where
  "toy_env_b =
     \<lparr>coinbase_id = ''coinbase_1640995801.0'', coinbase_time = 1640995801,
      header_time = 1640995801, still_mining = (\<lambda>n. True)\<rparr>"

definition toy_env_c :: mine_env where
  "toy_env_c =
     \<lparr>coinbase_id = ''coinbase_1640995802.0'', coinbase_time = 1640995802,
      header_time = 1640995802, still_mining = (\<lambda>n. True)\<rparr>"

definition toy_candidate :: "mine_env \<Rightarrow> string \<Rightarrow> block \<Rightarrow> candidate" where
  "toy_candidate e a tip =
     \<lparr>cand_header =
        \<lparr>version = 1, prev_hash = header_get_hash toy_crypto (header tip), merkle_root = 19,
         timestamp = header_time e, n_bits = 20, nonce = 3, height = height (header tip) + 1\<rparr>,
      cand_transactions = [create_coinbase_transaction (coinbase_id e) (coinbase_time e) a],
      cand_latest_block = tip\<rparr>"

definition toy_system2 :: miner_system where
  "toy_system2 = start_mining (start_mining (init_system toy_crypto) ''alice'') ''bob''"

definition toy_race :: miner_system where
  "toy_race =
     worker_commit toy_crypto
       (worker_commit toy_crypto
          (the (worker_search toy_crypto toy_env_b
                  (the (worker_search toy_crypto toy_env toy_system2 0)) 1)) 0) 1"

definition toy_overtaken :: miner_system where
  "toy_overtaken =
     worker_commit toy_crypto
       (the (worker_search toy_crypto toy_env_c
          (worker_commit toy_crypto
             (the (worker_search toy_crypto toy_env_b
                     (the (worker_search toy_crypto toy_env toy_system2 0)) 1)) 0) 0)) 0"

text \<open>
  Float operations that are exact except that the difference \<open>2700 - 1 / 10 ^ 20\<close>
  is \<open>2700\<close>, as it is on the machine.
\<close>

definition absorbing_floats :: crypto where
  "absorbing_floats =
     toy_crypto\<lparr>float_sub := (\<lambda>x y. if x = 2700 \<and> y = 1 / 10 ^ 20 then 2700 else x - y)\<rparr>"

section \<open>Stand-ins for the other modules' primitives\<close>

text \<open>
  Used only to run the models on concrete inputs. The string hash of \<open>toy_r_crypto\<close>
  always starts with four zeros, so every search of \<^verbatim>\<open>core/blockchain.py\<close> ends at once;
  the block hash of \<open>toy_z_config\<close> starts with four zeros at every nonce but 0.
\<close>

definition toy_r_crypto :: r_crypto where
  "toy_r_crypto =
     \<lparr>r_sha256 = (\<lambda>s. ''0000'' @ take 2 s),
      r_tx_data = (\<lambda>(src, dst, a, ts). src @ dst),
      r_block_data = (\<lambda>(i, ts, prev, mr, k, d). prev @ mr)\<rparr>"

definition toy_r_tx :: "string \<Rightarrow> string \<Rightarrow> real \<Rightarrow> r_transaction" where
  "toy_r_tx src dst a =
     \<lparr>r_from_address = src, r_to_address = dst, r_amount = a, r_timestamp = 1700000000,
      r_signature = [], r_tx_hash = ''0000'' @ take 2 (src @ dst)\<rparr>"

definition toy_z_config :: z_config where
  "toy_z_config =
     \<lparr>block_reward_initial = BLOCK_REWARD_INITIAL, pow_difficulty = 4, config_chain_id = 5470,
      commission = (\<lambda>a. a div 500),
      sha3_block = (\<lambda>(i, txs, ts, prev, k). if k = 0 then ''ffff'' else ''0000ab'')\<rparr>"

definition toy_z_block :: z_block where
  "toy_z_block =
     \<lparr>z_index = 1, z_transactions = [], z_previous_hash = ''not the tip'',
      z_block_timestamp = 1700000000, z_block_nonce = 1, z_hash = ''0000ab''\<rparr>"

definition unsigned_block :: block where
  "unsigned_block =
     \<lparr>header = \<lparr>version = 1, prev_hash = 0, merkle_root = 1, timestamp = 1640995800,
                 n_bits = 0, nonce = 0, height = 1\<rparr>,
      transactions = [toy_tx ''mallory'' 5 ''forged''], work = 0\<rparr>"

section \<open>Blocks handed to the ledgers directly\<close>

text \<open>
  A block with no transactions and \<open>n_bits = 0\<close>, with any previous hash, height and
  work: the Merkle root of no transactions is \<^verbatim>\<open>"0" * 64\<close> and the target \<open>2 ^ 256\<close> is
  above every digest, so \<^verbatim>\<open>verify_block\<close> accepts it whatever the hash functions are
  (lemma \<open>verify_bare_block\<close>).
\<close>

definition bare_block :: "digest \<Rightarrow> int \<Rightarrow> int \<Rightarrow> block" where
  "bare_block prev h w =
     \<lparr>header = \<lparr>version = 1, prev_hash = prev, merkle_root = 0, timestamp = 1640995800,
                 n_bits = 0, nonce = 0, height = h\<rparr>,
      transactions = [], work = w\<rparr>"

text \<open>
  A transaction and a block as a peer sends them to a \<^verbatim>\<open>CoreNode\<close>, the block on top of
  the tip with hash \<open>tip\<close>.
\<close>

definition peer_tx :: n_transaction where
  "peer_tx =
     \<lparr>n_from_address = ''alice'', n_to_address = ''bob'', n_amount = 5,
      n_timestamp = 1700000000, n_nonce = 0, n_signature = [],
      n_tx_hash = replicate 64 CHR ''a''\<rparr>"

definition peer_block :: "string \<Rightarrow> n_block" where
  "peer_block tip =
     \<lparr>n_index = 1, n_transactions = [peer_tx], n_previous_hash = tip,
      n_block_timestamp = 1700000000, n_block_nonce = 0, n_hash = ''0000beef''\<rparr>"

section \<open>Concrete ledgers of core/blockchain.py\<close>

text \<open>
  Under the stand-in primitives: the constructor's ledger, the block and the ledger after
  \<^verbatim>\<open>mine_pending_transactions\<close> for the address \<open>alice\<close>, the ledger after two
  transfers of 10 from \<open>alice\<close> have been submitted, and what mining on that ledger
  returns.
\<close>

definition toy_r_genesis :: r_block where
  "toy_r_genesis =
     \<lparr>r_index = 0, r_block_timestamp = 1700000000, r_transactions = [],
      r_previous_hash = ''0'', r_nonce = 0, r_hash = ''000000'',
      r_merkle_root = replicate 64 CHR ''0'', r_difficulty = 4\<rparr>"

definition toy_r_ledger0 :: real_blockchain where
  "toy_r_ledger0 =
     \<lparr>r_chain = [toy_r_genesis], r_pending_transactions = [], r_mining_reward = 10,
      r_ledger_difficulty = 4, r_balances = Map.empty\<rparr>"

definition toy_r_block1 :: r_block where
  "toy_r_block1 =
     \<lparr>r_index = 1, r_block_timestamp = 1700000020,
      r_transactions =
        [\<lparr>r_from_address = ''0'', r_to_address = ''alice'', r_amount = 10,
          r_timestamp = 1700000010, r_signature = [], r_tx_hash = ''00000a''\<rparr>],
      r_previous_hash = ''000000'', r_nonce = 0, r_hash = ''000000'',
      r_merkle_root = ''00000a'', r_difficulty = 4\<rparr>"

definition toy_r_ledger1 :: real_blockchain where
  "toy_r_ledger1 =
     toy_r_ledger0\<lparr>r_chain := [toy_r_genesis, toy_r_block1], r_balances := [''alice'' \<mapsto> 10]\<rparr>"

definition toy_r_ledger2 :: real_blockchain where
  "toy_r_ledger2 =
     snd (r_add_transaction toy_r_crypto
            (snd (r_add_transaction toy_r_crypto toy_r_ledger1 (toy_r_tx ''alice'' ''bob'' 10)))
            (toy_r_tx ''alice'' ''carol'' 10))"

definition toy_r_outcome :: "r_block \<times> real_blockchain" where
  "toy_r_outcome =
     projr (the (r_mine_pending_transactions toy_r_crypto 1700000030 1700000040
                   toy_r_ledger2 ''miner''))"

section \<open>Merkle commitment: the odd-count rule\<close>












section \<open>Block reward\<close>





section \<open>Submitting a transaction tagged as coinbase\<close>

text \<open>
  Claim C10. For every transaction whose \<^verbatim>\<open>is_coinbase\<close> flag is set,
  \<^verbatim>\<open>add_transaction_to_mempool\<close> returns \<open>True\<close> and appends the transaction to the
  mempool, whatever the signature primitive says, whatever the ledger holds and whether
  or not the transaction is in the pool already.
\<close>

theorem coinbase_tag_bypass:
  "is_coinbase tx \<Longrightarrow>
     add_transaction_to_mempool c s tx = (True, s\<lparr>mempool := mempool s @ [tx]\<rparr>)"
  by (simp add: add_transaction_to_mempool_def)

theorem coinbase_tag_bypass_witness:
  "is_coinbase (toy_tx ''mallory'' 1000000 ''forged''\<lparr>is_coinbase := True\<rparr>)
   \<and> \<not> verify_signature toy_crypto (toy_tx ''mallory'' 1000000 ''forged''\<lparr>is_coinbase := True\<rparr>)
   \<and> add_transaction_to_mempool toy_crypto (init toy_crypto)
        (toy_tx ''mallory'' 1000000 ''forged''\<lparr>is_coinbase := True\<rparr>)
      = (True, init toy_crypto\<lparr>mempool :=
                 [toy_tx ''mallory'' 1000000 ''forged''\<lparr>is_coinbase := True\<rparr>]\<rparr>)"
  using coinbase_tag_bypass
    [of "toy_tx ''mallory'' 1000000 ''forged''\<lparr>is_coinbase := True\<rparr>" toy_crypto "init toy_crypto"]
  by (simp add: verify_signature_def toy_crypto_def toy_tx_def init_def)

section \<open>Rejection leaves the ledger unchanged\<close>

text \<open>
  Claim C4. When \<^verbatim>\<open>Blockchain.add_block\<close> (first conjunct) or
  \<^verbatim>\<open>Blockchain5470._add_block_to_chain\<close> (second conjunct) returns \<open>False\<close>, the ledger
  after the call is the ledger before it: chain, balances, nonces and every other field.
\<close>

theorem rejection_atomicity:
  "(z_add_block p s b = Inr (False, s') \<longrightarrow> s' = s)
   \<and> (add_block_to_chain c t blk = (False, t') \<longrightarrow> t' = t)"
  by (auto simp: z_add_block_def add_block_to_chain_def split: if_splits)

theorem rejection_atomicity_witness:
  "z_add_block toy_z_config (z_create_genesis_block toy_z_config ''miner'' 1700000000 1700000000)
       toy_z_block
     = Inr (False, z_create_genesis_block toy_z_config ''miner'' 1700000000 1700000000)
   \<and> add_block_to_chain toy_crypto (init toy_crypto) unsigned_block
     = (False, init toy_crypto)"
proof -
  have 1: "z_add_block toy_z_config
             (z_create_genesis_block toy_z_config ''miner'' 1700000000 1700000000) toy_z_block
           = Inr (False, snd (projr (z_add_block toy_z_config
                (z_create_genesis_block toy_z_config ''miner'' 1700000000 1700000000) toy_z_block)))"
    by (simp add: z_add_block_def z_create_genesis_block_def toy_z_block_def Let_def
          z_calculate_hash_def toy_z_config_def)
  have 2: "add_block_to_chain toy_crypto (init toy_crypto) unsigned_block
           = (False, snd (add_block_to_chain toy_crypto (init toy_crypto) unsigned_block))"
    by (simp add: add_block_to_chain_def verify_block_def unsigned_block_def
          calculate_merkle_root_def merkle_loop.simps get_hash_def toy_crypto_def toy_tx_def)
  from rejection_atomicity
    [of toy_z_config "z_create_genesis_block toy_z_config ''miner'' 1700000000 1700000000"
        toy_z_block _ toy_crypto "init toy_crypto" unsigned_block] 1 2
  show ?thesis by metis
qed

section \<open>Difficulty retarget\<close>

lemma window_ends:
  assumes "10 \<le> length bs"
  shows "last (drop (length bs - 10) bs) = bs ! (length bs - 1)"
    and "hd (drop (length bs - 10) bs) = bs ! (length bs - 10)"
proof -
  have ne: "bs \<noteq> []" using assms by auto
  have "drop (length bs - 10) bs \<noteq> []" using assms by simp
  then have "last (drop (length bs - 10) bs) = last bs" by simp
  then show "last (drop (length bs - 10) bs) = bs ! (length bs - 1)"
    using ne by (simp add: last_conv_nth)
  show "hd (drop (length bs - 10) bs) = bs ! (length bs - 10)"
    using assms by (simp add: hd_drop_conv_nth)
qed

text \<open>
  Claim C7. With fewer than ten blocks \<^verbatim>\<open>_adjust_difficulty\<close> changes nothing. With ten
  or more it changes at most the difficulty: one more when the observed average over the
  last ten blocks, as the machine computes it, is below half the target interval, one
  less but not below 1 when it is above twice the target interval, unchanged otherwise;
  this holds whatever the rounding of the float operations is. Where the float operations
  round nothing on the ledger's values, the average that decides is the exact one: the
  last timestamp of the window minus the first, divided by 9, against the target interval
  divided by 2 and multiplied by 2.
\<close>

theorem retarget_rule:
  "(length (chain s) < 10 \<longrightarrow> adjust_difficulty c s = s)
   \<and> (10 \<le> length (chain s) \<longrightarrow>
        adjust_difficulty c s =
          s\<lparr>difficulty_target :=
               (if observed_average c (chain s) < float_mul c (real_of_int (block_time_target s)) 0.5
                  then difficulty_target s + 1
                else if observed_average c (chain s) > real_of_int (2 * block_time_target s)
                  then max 1 (difficulty_target s - 1)
                else difficulty_target s)\<rparr>)
   \<and> (10 \<le> length (chain s) \<and> floats_exact_on c s \<longrightarrow>
        adjust_difficulty c s =
          s\<lparr>difficulty_target :=
               (if exact_average (chain s) < real_of_int (block_time_target s) / 2
                  then difficulty_target s + 1
                else if exact_average (chain s) > 2 * real_of_int (block_time_target s)
                  then max 1 (difficulty_target s - 1)
                else difficulty_target s)\<rparr>)"
proof (intro conjI impI)
  assume "length (chain s) < 10"
  then show "adjust_difficulty c s = s" by (simp add: adjust_difficulty_def)
next
  assume len: "10 \<le> length (chain s)"
  show "adjust_difficulty c s =
          s\<lparr>difficulty_target :=
               (if observed_average c (chain s) < float_mul c (real_of_int (block_time_target s)) 0.5
                  then difficulty_target s + 1
                else if observed_average c (chain s) > real_of_int (2 * block_time_target s)
                  then max 1 (difficulty_target s - 1)
                else difficulty_target s)\<rparr>"
    using len
    by (simp add: adjust_difficulty_def Let_def window_ends [OF len] observed_average_def
          mult.commute)
next
  assume a: "10 \<le> length (chain s) \<and> floats_exact_on c s"
  then have len: "10 \<le> length (chain s)" by simp
  from a have "observed_average c (chain s) = exact_average (chain s)"
    and "float_mul c (real_of_int (block_time_target s)) 0.5 = real_of_int (block_time_target s) / 2"
    by (simp_all add: floats_exact_on_def observed_average_def exact_average_def)
  then show "adjust_difficulty c s =
          s\<lparr>difficulty_target :=
               (if exact_average (chain s) < real_of_int (block_time_target s) / 2
                  then difficulty_target s + 1
                else if exact_average (chain s) > 2 * real_of_int (block_time_target s)
                  then max 1 (difficulty_target s - 1)
                else difficulty_target s)\<rparr>"
    using len
    by (simp add: adjust_difficulty_def Let_def window_ends [OF len] observed_average_def
          mult.commute)
qed

theorem retarget_rule_witness:
  "length (chain (init toy_crypto)) < 10
   \<and> adjust_difficulty toy_crypto (init toy_crypto) = init toy_crypto
   \<and> 10 \<le> length (chain (toy_ledger_at [0, 100, 200, 300, 400, 500, 600, 700, 800, 900]))
   \<and> floats_exact_on toy_crypto (toy_ledger_at [0, 100, 200, 300, 400, 500, 600, 700, 800, 900])
   \<and> difficulty_target (adjust_difficulty toy_crypto
        (toy_ledger_at [0, 100, 200, 300, 400, 500, 600, 700, 800, 900])) = 21
   \<and> 10 \<le> length (chain (toy_ledger_at
        [0, 2000, 4000, 6000, 8000, 10000, 12000, 14000, 16000, 18000, 20000]))
   \<and> difficulty_target (adjust_difficulty toy_crypto (toy_ledger_at
        [0, 2000, 4000, 6000, 8000, 10000, 12000, 14000, 16000, 18000, 20000])) = 19
   \<and> difficulty_target (adjust_difficulty toy_crypto
        (toy_ledger_at [0, 300, 600, 900, 1200, 1500, 1800, 2100, 2400, 2700])) = 20
   \<and> exact_average (chain (toy_ledger_at
        [1 / 10 ^ 20, 300, 600, 900, 1200, 1500, 1800, 2100, 2400, 2700])) < 300
   \<and> observed_average absorbing_floats (chain (toy_ledger_at
        [1 / 10 ^ 20, 300, 600, 900, 1200, 1500, 1800, 2100, 2400, 2700])) = 300
   \<and> difficulty_target (adjust_difficulty absorbing_floats
        (toy_ledger_at [1 / 10 ^ 20, 300, 600, 900, 1200, 1500, 1800, 2100, 2400, 2700])) = 20"
proof -
  have e: "floats_exact_on toy_crypto
             (toy_ledger_at [0, 100, 200, 300, 400, 500, 600, 700, 800, 900])"
    by (simp add: floats_exact_on_def toy_crypto_def)
  from retarget_rule [of "init toy_crypto" toy_crypto]
    retarget_rule [of "toy_ledger_at [0, 100, 200, 300, 400, 500, 600, 700, 800, 900]" toy_crypto]
    retarget_rule [of "toy_ledger_at
        [0, 2000, 4000, 6000, 8000, 10000, 12000, 14000, 16000, 18000, 20000]" toy_crypto]
    retarget_rule [of "toy_ledger_at [0, 300, 600, 900, 1200, 1500, 1800, 2100, 2400, 2700]"
      toy_crypto]
    retarget_rule [of "toy_ledger_at
        [1 / 10 ^ 20, 300, 600, 900, 1200, 1500, 1800, 2100, 2400, 2700]" absorbing_floats]
    e
  show ?thesis
    by (simp add: init_def toy_ledger_at_def toy_block_at_def observed_average_def
          exact_average_def toy_crypto_def absorbing_floats_def)
qed

section \<open>Proof of work\<close>

lemma mine_loop_found:
  assumes "mine_loop c f bits h = Some r"
  shows "case r of None \<Rightarrow> True
         | Some h' \<Rightarrow> below_target (header_get_hash c h') bits
                       \<and> h' = h\<lparr>nonce := nonce h'\<rparr> \<and> nonce h < nonce h'"
  using assms
proof (induction rule: mine_loop.raw_induct [rotated 1, consumes 1, case_names step])
  case (step mine_loop c f bits h r)
  show ?case
  proof (cases "below_target (header_get_hash c (h\<lparr>nonce := nonce h + 1\<rparr>)) bits")
    case True
    with step(2) show ?thesis by auto
  next
    case False
    note nf = this
    show ?thesis
    proof (cases "f (nonce h + 1)")
      case False
      with nf step(2) show ?thesis by auto
    next
      case True
      with nf step(2) have "mine_loop c f bits (h\<lparr>nonce := nonce h + 1\<rparr>) = Some r" by simp
      from step(1) [OF this] show ?thesis
        by (cases r) (auto simp: )
    qed
  qed
qed







section \<open>Two mining workers on one tip\<close>

text \<open>
  Facts about the two phases of \<^verbatim>\<open>mine_block\<close>: what a search that ends returns, that
  \<^verbatim>\<open>verify_block\<close> accepts it whatever the ledger has become, and what the append does.
  \<^verbatim>\<open>_add_block_to_chain\<close> compares neither the previous hash nor the height of a block
  with the tip (lemma \<open>add_bare_block\<close>: it accepts a block with any previous hash, height
  and work).
\<close>

lemma mine_block_phases:
  "mine_block c e s a =
     (case mine_search c e s a of
        None \<Rightarrow> None
      | Some (Inl err) \<Rightarrow> Some (Inl err)
      | Some (Inr None) \<Rightarrow> Some (Inr (None, s))
      | Some (Inr (Some cand)) \<Rightarrow>
          Some (Inr (Some (fst (mine_commit c s cand)), snd (mine_commit c s cand))))"
  by (simp add: mine_block_def mine_search_def mine_commit_def Let_def
      split: option.splits)

lemma mine_search_cases:
  assumes "mine_search c e s a = Some (Inr (Some cand))"
  shows "chain s \<noteq> []
    \<and> cand_latest_block cand = last (chain s)
    \<and> cand_transactions cand
        = create_coinbase_transaction (coinbase_id e) (coinbase_time e) a # take 10 (mempool s)
    \<and> below_target (header_get_hash c (cand_header cand)) (n_bits (cand_header cand))
    \<and> n_bits (cand_header cand) = difficulty_target s
    \<and> prev_hash (cand_header cand) = header_get_hash c (header (last (chain s)))
    \<and> height (cand_header cand) = height (header (last (chain s))) + 1
    \<and> merkle_root (cand_header cand)
        = calculate_merkle_root c
            \<lparr>header = cand_header cand, transactions = cand_transactions cand, work = w\<rparr>"
proof -
  have ne: "chain s \<noteq> []" using assms by (auto simp: mine_search_def split: if_splits)
  define txs where
    "txs = create_coinbase_transaction (coinbase_id e) (coinbase_time e) a # take 10 (mempool s)"
  define hdr0 where
    "hdr0 = \<lparr>version = 1, prev_hash = header_get_hash c (header (last (chain s))),
             merkle_root = 0, timestamp = header_time e, n_bits = difficulty_target s,
             nonce = 0, height = height (header (last (chain s))) + 1\<rparr>"
  define hdr where
    "hdr = hdr0\<lparr>merkle_root :=
             calculate_merkle_root c \<lparr>header = hdr0, transactions = txs, work = 0\<rparr>\<rparr>"
  from assms ne obtain mined where
    res: "mine_loop c (still_mining e) (difficulty_target s) hdr = Some (Some mined)"
    and cand: "cand = \<lparr>cand_header = mined, cand_transactions = txs,
                       cand_latest_block = last (chain s)\<rparr>"
    by (auto simp: mine_search_def Let_def hdr_def hdr0_def txs_def split: option.splits)
  from mine_loop_found [OF res]
  have bt: "below_target (header_get_hash c mined) (difficulty_target s)"
    and eq: "mined = hdr\<lparr>nonce := nonce mined\<rparr>" by auto
  have f: "n_bits mined = difficulty_target s"
    "prev_hash mined = header_get_hash c (header (last (chain s)))"
    "height mined = height (header (last (chain s))) + 1"
    "merkle_root mined = calculate_merkle_root c \<lparr>header = mined, transactions = txs, work = w\<rparr>"
    by (subst eq, simp add: hdr_def hdr0_def calculate_merkle_root_def)+
  from ne cand bt f show ?thesis by (simp add: txs_def)
qed

lemma candidate_verified:
  assumes "mine_search c e s a = Some (Inr (Some cand))" and "signed_pool c (mempool s)"
  shows "verify_block c
           \<lparr>header = cand_header cand, transactions = cand_transactions cand, work = w\<rparr>"
proof -
  note f = mine_search_cases [OF assms(1), of w]
  have "list_all (\<lambda>tx. is_coinbase tx \<or> verify_signature c tx) (take 10 (mempool s))"
    using assms(2) unfolding signed_pool_def list_all_iff by (auto dest: in_set_takeD)
  then have "\<not> list_ex (\<lambda>tx. \<not> is_coinbase tx \<and> \<not> verify_signature c tx) (cand_transactions cand)"
    using f by (auto simp: list_all_iff list_ex_iff create_coinbase_transaction_def)
  with f show ?thesis by (auto simp: verify_block_def)
qed

lemma set_remove_mined: "set (remove_mined sel pool) \<subseteq> set pool"
  unfolding remove_mined_def
proof (induction sel arbitrary: pool)
  case Nil
  show ?case by simp
next
  case (Cons x xs)
  have "set (foldl (\<lambda>m tx. remove1 tx m) (remove1 x pool) xs) \<subseteq> set (remove1 x pool)"
    by (rule Cons)
  also have "\<dots> \<subseteq> set pool" by (rule set_remove1_subset)
  finally show ?case by simp
qed

lemma adjust_difficulty_fields:
  "chain (adjust_difficulty c s) = chain s"
  "mempool (adjust_difficulty c s) = mempool s"
  "best_work (adjust_difficulty c s) = best_work s"
  by (simp_all add: adjust_difficulty_def Let_def)

lemma adjust_difficulty_short: "length (chain s) < 10 \<Longrightarrow> adjust_difficulty c s = s"
  by (simp add: adjust_difficulty_def)

lemma commit_appends:
  assumes "mine_search c e s0 a = Some (Inr (Some cand))" and "signed_pool c (mempool s0)"
  shows "chain (snd (mine_commit c s cand)) = chain s @ [fst (mine_commit c s cand)]"
    and "best_work (snd (mine_commit c s cand)) = work (fst (mine_commit c s cand))"
    and "header (fst (mine_commit c s cand)) = cand_header cand"
    and "work (fst (mine_commit c s cand))
           = work (cand_latest_block cand) + 2 ^ nat (difficulty_target s)"
    and "signed_pool c (mempool s) \<Longrightarrow> signed_pool c (mempool (snd (mine_commit c s cand)))"
    and "length (chain s) < 9 \<Longrightarrow>
           difficulty_target (snd (mine_commit c s cand)) = difficulty_target s"
proof -
  define blk where
    "blk = \<lparr>header = cand_header cand, transactions = cand_transactions cand,
            work = work (cand_latest_block cand) + 2 ^ nat (difficulty_target s)\<rparr>"
  have v: "verify_block c blk"
    unfolding blk_def by (rule candidate_verified [OF assms])
  have c: "mine_commit c s cand
      = (blk, (adjust_difficulty c (s\<lparr>chain := chain s @ [blk], best_work := work blk\<rparr>))
                \<lparr>mempool := remove_mined (tl (cand_transactions cand)) (mempool s)\<rparr>)"
    using v by (simp add: mine_commit_def Let_def blk_def [symmetric] add_block_to_chain_def
        adjust_difficulty_fields)
  show "chain (snd (mine_commit c s cand)) = chain s @ [fst (mine_commit c s cand)]"
    and "best_work (snd (mine_commit c s cand)) = work (fst (mine_commit c s cand))"
    by (simp_all add: c adjust_difficulty_fields)
  show "header (fst (mine_commit c s cand)) = cand_header cand"
    and "work (fst (mine_commit c s cand))
           = work (cand_latest_block cand) + 2 ^ nat (difficulty_target s)"
    by (simp_all add: c blk_def)
  show "signed_pool c (mempool (snd (mine_commit c s cand)))" if "signed_pool c (mempool s)"
    using that set_remove_mined [of "tl (cand_transactions cand)" "mempool s"]
    by (auto simp: c signed_pool_def list_all_iff)
  show "difficulty_target (snd (mine_commit c s cand)) = difficulty_target s"
    if "length (chain s) < 9"
    using that by (simp add: c adjust_difficulty_short)
qed


lemma linked_appendD: "linked c (xs @ ys) \<Longrightarrow> linked c ys"
proof (induction xs)
  case Nil
  then show ?case by simp
next
  case (Cons x xs)
  then show ?case by (cases "xs @ ys") auto
qed

lemma linked_last_two: "linked c (xs @ [b1, b2]) \<Longrightarrow> height (header b2) = height (header b1) + 1"
  by (drule linked_appendD) simp

lemma commit_keeps_flags:
  "mining (snd (mine_commit c s cand)) = mining s"
  by (simp add: mine_commit_def add_block_to_chain_def adjust_difficulty_def Let_def)

lemma remove_mined_Nil: "remove_mined selected [] = []"
  unfolding remove_mined_def by (induction selected) simp_all

lemma commit_empty_pool:
  "mempool s = [] \<Longrightarrow> mempool (snd (mine_commit c s cand)) = []"
  by (simp add: mine_commit_def add_block_to_chain_def adjust_difficulty_def Let_def
      remove_mined_Nil)

lemma verify_bare_block: "verify_block c (bare_block prev h w)"
proof -
  have "uint (header_get_hash c (header (bare_block prev h w))) < 2 ^ 256"
    using uint_lt2p [of "header_get_hash c (header (bare_block prev h w))"] by simp
  then show ?thesis
    by (simp add: verify_block_def bare_block_def calculate_merkle_root_def below_target_def)
qed

lemma add_bare_block:
  "add_block_to_chain c s (bare_block prev h w)
     = (True, adjust_difficulty c (s\<lparr>chain := chain s @ [bare_block prev h w], best_work := w\<rparr>))"
  using verify_bare_block [of c prev h w] by (simp add: add_block_to_chain_def bare_block_def)

lemma toy_search:
  assumes "chain s \<noteq> []" and "mempool s = []" and "difficulty_target s = 20"
    and "still_mining e = (\<lambda>n. True)"
  shows "mine_search toy_crypto e s a = Some (Inr (Some (toy_candidate e a (last (chain s)))))"
  using assms
  by (simp add: mine_search_def Let_def toy_candidate_def toy_crypto_def header_get_hash_def
        mine_loop.simps below_target_def calculate_merkle_root_def get_hash_def
        create_coinbase_transaction_def merkle_loop.simps)

lemma toy_system2_eq:
  "toy_system2 =
     \<lparr>ledger = (init toy_crypto)\<lparr>mining := True, mining_address := Some ''bob''\<rparr>,
      workers = [Loop_head ''alice'', Loop_head ''bob'']\<rparr>"
  by (simp add: toy_system2_def start_mining_def init_system_def)

lemma toy_searches:
  "mine_search toy_crypto toy_env (ledger toy_system2) ''alice''
     = Some (Inr (Some (toy_candidate toy_env ''alice'' (genesis_block toy_crypto))))"
  "mine_search toy_crypto toy_env_b (ledger toy_system2) ''bob''
     = Some (Inr (Some (toy_candidate toy_env_b ''bob'' (genesis_block toy_crypto))))"
  by (subst toy_search; simp add: toy_system2_eq init_def toy_env_def toy_env_b_def)+

lemma toy_pool: "signed_pool toy_crypto (mempool (ledger toy_system2))"
  by (simp add: signed_pool_def toy_system2_eq init_def)

lemma toy_ledger2:
  "chain (ledger toy_system2) = [genesis_block toy_crypto]"
  "mempool (ledger toy_system2) = []"
  "difficulty_target (ledger toy_system2) = 20"
  "mining (ledger toy_system2)"
  by (simp_all add: toy_system2_eq init_def)

lemma toy_first_commit:
  "chain (snd (mine_commit toy_crypto (ledger toy_system2)
                 (toy_candidate toy_env ''alice'' (genesis_block toy_crypto))))
     = [genesis_block toy_crypto,
        fst (mine_commit toy_crypto (ledger toy_system2)
               (toy_candidate toy_env ''alice'' (genesis_block toy_crypto)))]"
  "mempool (snd (mine_commit toy_crypto (ledger toy_system2)
                   (toy_candidate toy_env ''alice'' (genesis_block toy_crypto)))) = []"
  "difficulty_target (snd (mine_commit toy_crypto (ledger toy_system2)
                   (toy_candidate toy_env ''alice'' (genesis_block toy_crypto)))) = 20"
proof -
  note k = commit_appends [OF toy_searches(1) toy_pool, of "ledger toy_system2"]
  show "chain (snd (mine_commit toy_crypto (ledger toy_system2)
                 (toy_candidate toy_env ''alice'' (genesis_block toy_crypto))))
     = [genesis_block toy_crypto,
        fst (mine_commit toy_crypto (ledger toy_system2)
               (toy_candidate toy_env ''alice'' (genesis_block toy_crypto)))]"
    by (simp only: k(1) toy_ledger2(1) append.simps)
  show "mempool (snd (mine_commit toy_crypto (ledger toy_system2)
                   (toy_candidate toy_env ''alice'' (genesis_block toy_crypto)))) = []"
    by (rule commit_empty_pool) (rule toy_ledger2(2))
  have "length (chain (ledger toy_system2)) < 9" by (simp add: toy_ledger2(1))
  then show "difficulty_target (snd (mine_commit toy_crypto (ledger toy_system2)
                   (toy_candidate toy_env ''alice'' (genesis_block toy_crypto)))) = 20"
    using k(6) toy_ledger2(3) by simp
qed

lemma toy_second_search:
  "mine_search toy_crypto toy_env_c
      (snd (mine_commit toy_crypto (ledger toy_system2)
              (toy_candidate toy_env ''alice'' (genesis_block toy_crypto)))) ''alice''
     = Some (Inr (Some (toy_candidate toy_env_c ''alice''
          (fst (mine_commit toy_crypto (ledger toy_system2)
                  (toy_candidate toy_env ''alice'' (genesis_block toy_crypto)))))))"
  by (subst toy_search) (simp_all add: toy_first_commit toy_env_c_def)


lemma toy_race_steps:
  "worker_search toy_crypto toy_env toy_system2 0
     = Some (toy_system2\<lparr>workers :=
          [Found ''alice'' (toy_candidate toy_env ''alice'' (genesis_block toy_crypto)),
           Loop_head ''bob'']\<rparr>)"
  "worker_search toy_crypto toy_env_b
       (toy_system2\<lparr>workers :=
          [Found ''alice'' (toy_candidate toy_env ''alice'' (genesis_block toy_crypto)),
           Loop_head ''bob'']\<rparr>) 1
     = Some (toy_system2\<lparr>workers :=
          [Found ''alice'' (toy_candidate toy_env ''alice'' (genesis_block toy_crypto)),
           Found ''bob'' (toy_candidate toy_env_b ''bob'' (genesis_block toy_crypto))]\<rparr>)"
  using toy_searches
  by (simp_all add: worker_search_def) (simp_all add: toy_system2_eq)

lemma toy_race_ledger:
  "ledger toy_race =
     snd (mine_commit toy_crypto
            (snd (mine_commit toy_crypto (ledger toy_system2)
                    (toy_candidate toy_env ''alice'' (genesis_block toy_crypto))))
            (toy_candidate toy_env_b ''bob'' (genesis_block toy_crypto)))"
  apply (simp only: toy_race_def toy_race_steps option.sel)
  apply (simp add: worker_commit_def toy_system2_eq)
  done

lemma toy_race_heights:
  "map (\<lambda>b. height (header b)) (chain (ledger toy_race)) = [0, 1, 1]"
  unfolding toy_race_ledger
  using commit_appends(1,3) [OF toy_searches(1) toy_pool]
    commit_appends(1,3) [OF toy_searches(2) toy_pool]
  by (simp add: toy_system2_eq init_def toy_candidate_def genesis_block_def Let_def)


lemma toy_overtaken_eq:
  "toy_overtaken =
     \<lparr>ledger =
        snd (mine_commit toy_crypto
               (snd (mine_commit toy_crypto (ledger toy_system2)
                       (toy_candidate toy_env ''alice'' (genesis_block toy_crypto))))
               (toy_candidate toy_env_c ''alice''
                  (fst (mine_commit toy_crypto (ledger toy_system2)
                          (toy_candidate toy_env ''alice'' (genesis_block toy_crypto)))))),
      workers = [Loop_head ''alice'',
                 Found ''bob'' (toy_candidate toy_env_b ''bob'' (genesis_block toy_crypto))]\<rparr>"
proof -
  let ?candA = "toy_candidate toy_env ''alice'' (genesis_block toy_crypto)"
  let ?candB = "toy_candidate toy_env_b ''bob'' (genesis_block toy_crypto)"
  let ?s1 = "snd (mine_commit toy_crypto (ledger toy_system2) ?candA)"
  have a: "worker_commit toy_crypto (toy_system2\<lparr>workers := [Found ''alice'' ?candA, Found ''bob'' ?candB]\<rparr>) 0
             = \<lparr>ledger = ?s1, workers = [Loop_head ''alice'', Found ''bob'' ?candB]\<rparr>"
    by (simp add: worker_commit_def toy_system2_eq)
  have m: "mining ?s1"
    by (simp add: commit_keeps_flags toy_ledger2)
  have b: "worker_search toy_crypto toy_env_c
              \<lparr>ledger = ?s1, workers = [Loop_head ''alice'', Found ''bob'' ?candB]\<rparr> 0
             = Some \<lparr>ledger = ?s1,
                     workers = [Found ''alice'' (toy_candidate toy_env_c ''alice''
                                   (fst (mine_commit toy_crypto (ledger toy_system2) ?candA))),
                                Found ''bob'' ?candB]\<rparr>"
    using m toy_second_search by (simp add: worker_search_def)
  show ?thesis
    apply (simp only: toy_overtaken_def toy_race_steps option.sel a b)
    apply (simp add: worker_commit_def)
    done
qed


section \<open>Chain linkage\<close>

text \<open>
  Claim C1 does not hold of \<^verbatim>\<open>Blockchain5470\<close>: the chain linkage invariant (for every
  \<open>i > 0\<close>, block \<open>i\<close> names the hash of block \<open>i - 1\<close> and has its height plus one) is
  broken by two mining workers. For every hash and signature primitive: when two searches
  end on the same ledger and both blocks are appended, the chain is the old chain
  followed by both blocks, the second block has the height and the previous hash of the
  first (the hash of the old tip, two places before it), and the chain is not linked.
\<close>

theorem stale_tip_block_appended:
  assumes "mine_search c e1 s a1 = Some (Inr (Some cand1))"
    and "mine_search c e2 s a2 = Some (Inr (Some cand2))"
    and "signed_pool c (mempool s)"
  shows "chain (snd (mine_commit c (snd (mine_commit c s cand1)) cand2))
           = chain s @ [fst (mine_commit c s cand1),
                        fst (mine_commit c (snd (mine_commit c s cand1)) cand2)]
       \<and> height (header (fst (mine_commit c (snd (mine_commit c s cand1)) cand2)))
           = height (header (fst (mine_commit c s cand1)))
       \<and> prev_hash (header (fst (mine_commit c (snd (mine_commit c s cand1)) cand2)))
           = prev_hash (header (fst (mine_commit c s cand1)))
       \<and> prev_hash (header (fst (mine_commit c (snd (mine_commit c s cand1)) cand2)))
           = header_get_hash c (header (last (chain s)))
       \<and> \<not> linked c (chain (snd (mine_commit c (snd (mine_commit c s cand1)) cand2)))"
proof -
  let ?b1 = "fst (mine_commit c s cand1)" and ?s1 = "snd (mine_commit c s cand1)"
  let ?b2 = "fst (mine_commit c ?s1 cand2)" and ?s2 = "snd (mine_commit c ?s1 cand2)"
  note k1 = commit_appends [OF assms(1) assms(3), of s]
  note k2 = commit_appends [OF assms(2) assms(3), of ?s1]
  note f1 = mine_search_cases [OF assms(1), of 0] and f2 = mine_search_cases [OF assms(2), of 0]
  have ch: "chain ?s2 = chain s @ [?b1, ?b2]" by (simp add: k1(1) k2(1))
  have h: "height (header ?b2) = height (header ?b1)"
    and p: "prev_hash (header ?b2) = prev_hash (header ?b1)"
    using f1 f2 by (simp_all add: k1(3) k2(3))
  have q: "prev_hash (header ?b2) = header_get_hash c (header (last (chain s)))"
    using f2 by (simp add: k2(3))
  have "\<not> linked c (chain s @ [?b1, ?b2])"
    using linked_last_two [of c "chain s" ?b1 ?b2] h by auto
  with ch h p q show ?thesis by simp
qed

text \<open>
  The theorem on the ledger of the constructor after \<^verbatim>\<open>start_mining\<close> for two addresses:
  both workers search on the genesis tip, then both append; the heights of the chain are
  0, 1, 1.
\<close>

theorem stale_tip_block_appended_witness:
  "mine_search toy_crypto toy_env (ledger toy_system2) ''alice''
     = Some (Inr (Some (toy_candidate toy_env ''alice'' (genesis_block toy_crypto))))
   \<and> mine_search toy_crypto toy_env_b (ledger toy_system2) ''bob''
     = Some (Inr (Some (toy_candidate toy_env_b ''bob'' (genesis_block toy_crypto))))
   \<and> signed_pool toy_crypto (mempool (ledger toy_system2))
   \<and> ledger toy_race =
       snd (mine_commit toy_crypto
              (snd (mine_commit toy_crypto (ledger toy_system2)
                      (toy_candidate toy_env ''alice'' (genesis_block toy_crypto))))
              (toy_candidate toy_env_b ''bob'' (genesis_block toy_crypto)))
   \<and> length (chain (ledger toy_race)) = 3
   \<and> map (\<lambda>b. height (header b)) (chain (ledger toy_race)) = [0, 1, 1]
   \<and> \<not> linked toy_crypto (chain (ledger toy_race))"
proof -
  have len: "length (chain (ledger toy_race)) = 3"
    using toy_race_heights by (metis length_map length_Cons list.size(3) numeral_3_eq_3)
  have "\<not> linked toy_crypto (chain (ledger toy_race))"
    using stale_tip_block_appended [OF toy_searches toy_pool]
    unfolding toy_race_ledger by blast
  then show ?thesis
    using toy_searches toy_pool toy_race_ledger toy_race_heights len by blast
qed



section \<open>Cumulative work\<close>

text \<open>
  Claim C5 does not hold of \<^verbatim>\<open>Blockchain5470\<close>: \<open>best_work\<close> decreases when a worker
  appends a block that it found on an older tip. \<^verbatim>\<open>_add_block_to_chain\<close> assigns the work
  of the appended block to \<open>best_work\<close> without comparing. For every hash and signature
  primitive, on a ledger of fewer than seven blocks: when one search ends on the ledger
  and is held back, and two further blocks are found and appended one after the other,
  \<open>best_work\<close> is the work of the old tip plus twice \<open>2 ^ difficulty_target\<close>; when the
  block held back is then appended, \<open>best_work\<close> is the work of the old tip plus
  \<open>2 ^ difficulty_target\<close>, which is less.
\<close>

theorem stale_commit_lowers_best_work:
  assumes "mine_search c eB s aB = Some (Inr (Some candB))"
    and "mine_search c e1 s a1 = Some (Inr (Some cand1))"
    and "mine_search c e2 (snd (mine_commit c s cand1)) a2 = Some (Inr (Some cand2))"
    and "signed_pool c (mempool s)" and "length (chain s) < 7"
  shows "best_work (snd (mine_commit c (snd (mine_commit c s cand1)) cand2))
           = work (last (chain s)) + 2 * 2 ^ nat (difficulty_target s)
       \<and> best_work (snd (mine_commit c
            (snd (mine_commit c (snd (mine_commit c s cand1)) cand2)) candB))
           = work (last (chain s)) + 2 ^ nat (difficulty_target s)
       \<and> best_work (snd (mine_commit c
            (snd (mine_commit c (snd (mine_commit c s cand1)) cand2)) candB))
           < best_work (snd (mine_commit c (snd (mine_commit c s cand1)) cand2))"
proof -
  let ?s1 = "snd (mine_commit c s cand1)"
  let ?s2 = "snd (mine_commit c ?s1 cand2)"
  let ?s3 = "snd (mine_commit c ?s2 candB)"
  let ?d = "difficulty_target s"
  note k1 = commit_appends [OF assms(2) assms(4), of s]
  have pool1: "signed_pool c (mempool ?s1)" using assms(4) by (rule k1(5))
  note k2 = commit_appends [OF assms(3) pool1, of ?s1]
  note k3 = commit_appends [OF assms(1) assms(4), of ?s2]
  note fB = mine_search_cases [OF assms(1), of 0]
    and f1 = mine_search_cases [OF assms(2), of 0]
    and f2 = mine_search_cases [OF assms(3), of 0]
  have d1: "difficulty_target ?s1 = ?d" using assms(5) by (intro k1(6)) simp
  have d2: "difficulty_target ?s2 = ?d" using assms(5) d1 by (simp add: k2(6) k1(1))
  have w1: "best_work ?s1 = work (last (chain s)) + 2 ^ nat ?d"
    using f1 by (simp add: k1(2) k1(4))
  have "cand_latest_block cand2 = fst (mine_commit c s cand1)"
    using f2 by (simp add: k1(1))
  then have w2: "best_work ?s2 = work (last (chain s)) + 2 * 2 ^ nat ?d"
    using w1 by (simp add: k2(2) k2(4) d1 k1(2))
  have w3: "best_work ?s3 = work (last (chain s)) + 2 ^ nat ?d"
    using fB by (simp add: k3(2) k3(4) d2)
  have "(0::int) < 2 ^ nat ?d" by simp
  with w2 w3 show ?thesis by linarith
qed

text \<open>
  The theorem on the ledger of the constructor after \<^verbatim>\<open>start_mining\<close> for two addresses:
  \<open>best_work\<close> is 2097153 after the first worker's second block and 1048577 after the
  second worker appends the block it found on the genesis tip.
\<close>

theorem stale_commit_lowers_best_work_witness:
  "mine_search toy_crypto toy_env_b (ledger toy_system2) ''bob''
     = Some (Inr (Some (toy_candidate toy_env_b ''bob'' (genesis_block toy_crypto))))
   \<and> mine_search toy_crypto toy_env (ledger toy_system2) ''alice''
     = Some (Inr (Some (toy_candidate toy_env ''alice'' (genesis_block toy_crypto))))
   \<and> mine_search toy_crypto toy_env_c
        (snd (mine_commit toy_crypto (ledger toy_system2)
                (toy_candidate toy_env ''alice'' (genesis_block toy_crypto)))) ''alice''
     = Some (Inr (Some (toy_candidate toy_env_c ''alice''
          (fst (mine_commit toy_crypto (ledger toy_system2)
                  (toy_candidate toy_env ''alice'' (genesis_block toy_crypto)))))))
   \<and> signed_pool toy_crypto (mempool (ledger toy_system2))
   \<and> length (chain (ledger toy_system2)) < 7
   \<and> best_work (ledger toy_overtaken) = 2097153
   \<and> best_work (ledger (worker_commit toy_crypto toy_overtaken 1)) = 1048577"
proof -
  have len: "length (chain (ledger toy_system2)) < 7"
    by (simp add: toy_ledger2)
  have g: "work (last (chain (ledger toy_system2))) = 1"
      "difficulty_target (ledger toy_system2) = 20"
    by (simp_all add: toy_ledger2 genesis_block_def Let_def)
  have l: "ledger (worker_commit toy_crypto toy_overtaken 1)
      = snd (mine_commit toy_crypto (ledger toy_overtaken)
               (toy_candidate toy_env_b ''bob'' (genesis_block toy_crypto)))"
    by (simp add: toy_overtaken_eq worker_commit_def)
  have "best_work (ledger toy_overtaken) = 2097153
      \<and> best_work (ledger (worker_commit toy_crypto toy_overtaken 1)) = 1048577"
    using stale_commit_lowers_best_work
      [OF toy_searches(2) toy_searches(1) toy_second_search toy_pool len]
    unfolding l unfolding toy_overtaken_eq by (simp add: g)
  then show ?thesis
    using toy_searches toy_second_search toy_pool len by blast
qed


section \<open>Balances in core/blockchain.py\<close>

lemma r_mine_loop_transactions:
  assumes "r_mine_loop c b = Some b'"
  shows "r_transactions b' = r_transactions b"
  using assms
proof (induction rule: r_mine_loop.raw_induct [rotated 1, consumes 1, case_names step])
  case (step r_mine_loop c b b')
  show ?case
  proof (cases "startswith (r_block_calculate_hash c b) (replicate (nat (r_difficulty b)) CHR ''0'')")
    case True
    with step(2) show ?thesis by auto
  next
    case False
    with step(2) have "r_mine_loop c (b\<lparr>r_hash := r_block_calculate_hash c b, r_nonce := r_nonce b + 1\<rparr>) = Some b'"
      by simp
    from step(1) [OF this] show ?thesis by simp
  qed
qed

lemma r_mined_balances:
  assumes "r_mine_pending_transactions c t1 t2 s m = Some (Inr (blk, s'))"
  shows "r_balances s' =
           foldl r_update_balance
             (r_update_balance (r_balances s)
                \<lparr>r_from_address = ''0'', r_to_address = m, r_amount = r_mining_reward s,
                 r_timestamp = t1, r_signature = [],
                 r_tx_hash = r_calculate_hash c
                    \<lparr>r_from_address = ''0'', r_to_address = m, r_amount = r_mining_reward s,
                     r_timestamp = t1, r_signature = [], r_tx_hash = []\<rparr>\<rparr>)
             (r_pending_transactions s)"
proof -
  from assms obtain nb where
    m: "r_mine_block c
          \<lparr>r_index = int (length (r_chain s)), r_block_timestamp = t2,
           r_transactions =
             \<lparr>r_from_address = ''0'', r_to_address = m, r_amount = r_mining_reward s,
              r_timestamp = t1, r_signature = [],
              r_tx_hash = r_calculate_hash c
                 \<lparr>r_from_address = ''0'', r_to_address = m, r_amount = r_mining_reward s,
                  r_timestamp = t1, r_signature = [], r_tx_hash = []\<rparr>\<rparr>
             # r_pending_transactions s,
           r_previous_hash = r_hash (last (r_chain s)), r_nonce = 0, r_hash = [],
           r_merkle_root = [], r_difficulty = r_ledger_difficulty s\<rparr> = Some nb"
    and s': "s' = (r_update_balances_from_block (s\<lparr>r_chain := r_chain s @ [nb]\<rparr>) nb)
                    \<lparr>r_pending_transactions := []\<rparr>"
    by (auto simp: r_mine_pending_transactions_def Let_def split: if_splits option.splits)
  from r_mine_loop_transactions [OF m [unfolded r_mine_block_def]]
  have "r_transactions nb =
          \<lparr>r_from_address = ''0'', r_to_address = m, r_amount = r_mining_reward s,
           r_timestamp = t1, r_signature = [],
           r_tx_hash = r_calculate_hash c
              \<lparr>r_from_address = ''0'', r_to_address = m, r_amount = r_mining_reward s,
               r_timestamp = t1, r_signature = [], r_tx_hash = []\<rparr>\<rparr>
          # r_pending_transactions s"
    by simp
  with s' show ?thesis by (simp add: r_update_balances_from_block_def)
qed

lemma r_get_balance_update:
  "(case (r_update_balance bal tx) a of None \<Rightarrow> 0 | Some v \<Rightarrow> v) =
     (case bal a of None \<Rightarrow> 0 | Some v \<Rightarrow> v)
       - (if r_from_address tx \<noteq> ''0'' \<and> r_from_address tx = a then r_amount tx else 0)
       + (if r_to_address tx = a then r_amount tx else 0)"
  by (simp add: r_update_balance_def Let_def)

lemma toy_r_mine_block:
  "r_difficulty b = 4 \<Longrightarrow>
     r_mine_block toy_r_crypto b =
       Some (b\<lparr>r_merkle_root := r_calculate_merkle_root toy_r_crypto b,
               r_hash := r_block_calculate_hash toy_r_crypto
                           (b\<lparr>r_merkle_root := r_calculate_merkle_root toy_r_crypto b\<rparr>)\<rparr>)"
  unfolding r_mine_block_def
  by (subst r_mine_loop.simps)
     (simp add: startswith_def r_block_calculate_hash_def toy_r_crypto_def eval_nat_numeral)

lemma toy_r_init: "r_init toy_r_crypto 1700000000 = Some toy_r_ledger0"
  by (simp add: r_init_def toy_r_mine_block)
     (simp add: toy_r_ledger0_def toy_r_genesis_def r_calculate_merkle_root_def
        r_block_calculate_hash_def toy_r_crypto_def)

lemma toy_r_mine1:
  "r_mine_pending_transactions toy_r_crypto 1700000010 1700000020 toy_r_ledger0 ''alice''
     = Some (Inr (toy_r_block1, toy_r_ledger1))"
  by (simp add: r_mine_pending_transactions_def Let_def toy_r_mine_block toy_r_ledger0_def)
     (simp add: toy_r_ledger1_def toy_r_ledger0_def toy_r_block1_def toy_r_genesis_def
        r_calculate_merkle_root_def r_block_calculate_hash_def r_calculate_hash_def
        merkle_loop.simps toy_r_crypto_def r_update_balances_from_block_def
        r_update_balance_def)

lemma toy_r_mine_returns:
  assumes "r_chain s \<noteq> []" and "r_ledger_difficulty s = 4"
  shows "\<exists>b s'. r_mine_pending_transactions toy_r_crypto t1 t2 s m = Some (Inr (b, s'))"
  using assms by (simp add: r_mine_pending_transactions_def Let_def toy_r_mine_block)

lemma toy_r_mine2:
  "r_mine_pending_transactions toy_r_crypto 1700000030 1700000040 toy_r_ledger2 ''miner''
     = Some (Inr (fst toy_r_outcome, snd toy_r_outcome))"
proof -
  have "r_chain toy_r_ledger2 \<noteq> []" and "r_ledger_difficulty toy_r_ledger2 = 4"
    by (simp_all add: toy_r_ledger2_def r_add_transaction_def toy_r_ledger1_def toy_r_ledger0_def)
  from toy_r_mine_returns [OF this] show ?thesis
    unfolding toy_r_outcome_def by (metis option.sel sum.sel(2) prod.collapse)
qed

text \<open>
  Claim C3 does not hold of \<^verbatim>\<open>RealBlockchain\<close>. \<^verbatim>\<open>add_transaction\<close> compares each
  transfer with the confirmed balance only, and \<^verbatim>\<open>update_balances_from_block\<close> debits
  without a check. So for every hash primitive: when an address holds \<open>x > 0\<close> and
  nothing is pending, two transfers of \<open>x\<close> from it are both accepted into the pool, and
  whenever \<^verbatim>\<open>mine_pending_transactions\<close> then returns, the replayed balance of the address
  is \<open>- x\<close>.
\<close>

theorem pending_double_spend:
  assumes "r_get_balance s a = x" and "0 < x" and "a \<noteq> ''0''" and "m \<noteq> a"
    and "r_pending_transactions s = []"
    and "r_from_address tx1 = a" and "r_amount tx1 = x" and "r_to_address tx1 \<noteq> a"
    and "r_verify_transaction c tx1"
    and "r_from_address tx2 = a" and "r_amount tx2 = x" and "r_to_address tx2 \<noteq> a"
    and "r_verify_transaction c tx2"
    and "r_mine_pending_transactions c t1 t2
           (snd (r_add_transaction c (snd (r_add_transaction c s tx1)) tx2)) m
         = Some (Inr (blk, s'))"
  shows "fst (r_add_transaction c s tx1)
       \<and> fst (r_add_transaction c (snd (r_add_transaction c s tx1)) tx2)
       \<and> r_get_balance s' a = - x"
proof -
  have h: "r_calculate_hash c (tx\<lparr>r_tx_hash := h\<rparr>) = r_calculate_hash c tx" for tx h
    by (simp add: r_calculate_hash_def)
  have 1: "r_add_transaction c s tx1
            = (True, s\<lparr>r_pending_transactions := [tx1\<lparr>r_tx_hash := r_calculate_hash c tx1\<rparr>]\<rparr>)"
    using assms(1-9) by (simp add: r_add_transaction_def)
  have 2: "r_add_transaction c (snd (r_add_transaction c s tx1)) tx2
            = (True, s\<lparr>r_pending_transactions :=
                 [tx1\<lparr>r_tx_hash := r_calculate_hash c tx1\<rparr>,
                  tx2\<lparr>r_tx_hash := r_calculate_hash c tx2\<rparr>]\<rparr>)"
    using assms(1-13) by (simp add: 1 r_add_transaction_def r_get_balance_def)
  have 3: "snd (r_add_transaction c (snd (r_add_transaction c s tx1)) tx2)
            = s\<lparr>r_pending_transactions :=
                 [tx1\<lparr>r_tx_hash := r_calculate_hash c tx1\<rparr>,
                  tx2\<lparr>r_tx_hash := r_calculate_hash c tx2\<rparr>]\<rparr>"
    by (simp only: 2 snd_conv)
  from r_mined_balances [OF assms(14) [unfolded 3]]
  have "r_get_balance s' a = r_get_balance s a - x - x"
    using assms(3-12)
    by (simp add: r_get_balance_def r_get_balance_update)
  with assms(1) 1 2 show ?thesis by simp
qed


theorem pending_double_spend_witness:
  "r_init toy_r_crypto 1700000000 = Some toy_r_ledger0
   \<and> r_mine_pending_transactions toy_r_crypto 1700000010 1700000020 toy_r_ledger0 ''alice''
       = Some (Inr (toy_r_block1, toy_r_ledger1))
   \<and> r_get_balance toy_r_ledger1 ''alice'' = 10
   \<and> r_verify_transaction toy_r_crypto (toy_r_tx ''alice'' ''bob'' 10)
   \<and> r_verify_transaction toy_r_crypto (toy_r_tx ''alice'' ''carol'' 10)
   \<and> fst (r_add_transaction toy_r_crypto toy_r_ledger1 (toy_r_tx ''alice'' ''bob'' 10))
   \<and> fst (r_add_transaction toy_r_crypto
            (snd (r_add_transaction toy_r_crypto toy_r_ledger1 (toy_r_tx ''alice'' ''bob'' 10)))
            (toy_r_tx ''alice'' ''carol'' 10))
   \<and> r_mine_pending_transactions toy_r_crypto 1700000030 1700000040 toy_r_ledger2 ''miner''
       = Some (Inr (fst toy_r_outcome, snd toy_r_outcome))
   \<and> r_get_balance (snd toy_r_outcome) ''alice'' = - 10"
proof -
  have b: "r_get_balance toy_r_ledger1 ''alice'' = 10"
    by (simp add: r_get_balance_def toy_r_ledger1_def)
  have p: "r_pending_transactions toy_r_ledger1 = []"
    by (simp add: toy_r_ledger1_def toy_r_ledger0_def)
  have v: "r_verify_transaction toy_r_crypto (toy_r_tx ''alice'' ''bob'' 10)"
    "r_verify_transaction toy_r_crypto (toy_r_tx ''alice'' ''carol'' 10)"
    by (simp_all add: r_verify_transaction_def r_calculate_hash_def toy_r_tx_def toy_r_crypto_def)
  have f: "r_from_address (toy_r_tx ''alice'' ''bob'' 10) = ''alice''"
    "r_amount (toy_r_tx ''alice'' ''bob'' 10) = 10"
    "r_to_address (toy_r_tx ''alice'' ''bob'' 10) \<noteq> ''alice''"
    "r_from_address (toy_r_tx ''alice'' ''carol'' 10) = ''alice''"
    "r_amount (toy_r_tx ''alice'' ''carol'' 10) = 10"
    "r_to_address (toy_r_tx ''alice'' ''carol'' 10) \<noteq> ''alice''"
    by (simp_all add: toy_r_tx_def)
  from pending_double_spend
    [OF b _ _ _ p f(1,2,3) v(1) f(4,5,6) v(2) toy_r_mine2 [unfolded toy_r_ledger2_def]]
  have "fst (r_add_transaction toy_r_crypto toy_r_ledger1 (toy_r_tx ''alice'' ''bob'' 10))
   \<and> fst (r_add_transaction toy_r_crypto
            (snd (r_add_transaction toy_r_crypto toy_r_ledger1 (toy_r_tx ''alice'' ''bob'' 10)))
            (toy_r_tx ''alice'' ''carol'' 10))
   \<and> r_get_balance (snd toy_r_outcome) ''alice'' = - 10"
    by simp
  with toy_r_init toy_r_mine1 b v toy_r_mine2 show ?thesis by simp
qed


section \<open>The mempool after a peer's block\<close>

text \<open>
  Claim C9 does not hold of \<^verbatim>\<open>CoreNode\<close> on the peer path. For every hash primitive,
  wallet and clock: after the constructor, a peer's transaction enters the mempool; a
  peer's block on top of the genesis block that contains this transaction is accepted by
  \<^verbatim>\<open>validate_block\<close> and \<^verbatim>\<open>add_block\<close>; and the mempool still holds the transaction.
\<close>

theorem peer_block_keeps_mempool:
  "n_blockchain (n_receive_blocks (n_receive_tx (n_init c w t1 t2) peer_tx)
         [peer_block (n_hash (last (n_blockchain (n_init c w t1 t2))))])
     = n_blockchain (n_init c w t1 t2) @ [peer_block (n_hash (last (n_blockchain (n_init c w t1 t2))))]
   \<and> n_mempool (n_receive_blocks (n_receive_tx (n_init c w t1 t2) peer_tx)
         [peer_block (n_hash (last (n_blockchain (n_init c w t1 t2))))])
     = [peer_tx]
   \<and> n_transactions (peer_block (n_hash (last (n_blockchain (n_init c w t1 t2))))) = [peer_tx]"
proof -
  define s0 where "s0 = n_init c w t1 t2"
  define s1 where "s1 = n_receive_tx s0 peer_tx"
  define blk where "blk = peer_block (n_hash (last (n_blockchain s0)))"
  have s1: "s1 = s0\<lparr>n_mempool := [peer_tx]\<rparr>"
    by (simp add: s1_def s0_def n_receive_tx_def n_validate_transaction_def peer_tx_def n_init_def)
  have idx: "n_index (last (n_blockchain s0)) = 0"
    by (simp add: s0_def n_init_def n_new_block_def Let_def)
  have ne: "n_blockchain s0 \<noteq> []" by (simp add: s0_def n_init_def)
  have v: "n_validate_block s1 blk"
    using idx ne by (simp add: n_validate_block_def s1 blk_def peer_block_def startswith_def)
  have "n_receive_blocks s1 [blk] = n_add_block s1 blk"
    using v by (simp add: n_receive_blocks_def)
  then have "n_blockchain (n_receive_blocks s1 [blk]) = n_blockchain s0 @ [blk]"
    and "n_mempool (n_receive_blocks s1 [blk]) = [peer_tx]"
    using v by (simp_all add: n_add_block_def n_update_utxo_set_def s1)
  then show ?thesis
    unfolding s1_def blk_def s0_def by (simp add: peer_block_def)
qed


end
